theory Spec2Isabelle
  imports Main
begin

section \<open>JavaScript values used by population-pyramid.js\<close>

text \<open>
  Indices and parsed query parameters are JavaScript numbers. The script only ever produces
  integers or \<open>NaN\<close> for them (\<open>parseInt\<close>, \<open>+ 1\<close>, \<open>%\<close>, \<open>findIndex\<close>), so a number is an
  integer or \<open>NaN\<close>. Every comparison with \<open>NaN\<close> is false, \<open>!==\<close> with \<open>NaN\<close> is true.
\<close>

datatype jsnum = Num int | NaN

fun js_lt :: "jsnum \<Rightarrow> jsnum \<Rightarrow> bool" where
  "js_lt (Num a) (Num b) = (a < b)"
| "js_lt _ _ = False"

fun js_ge :: "jsnum \<Rightarrow> jsnum \<Rightarrow> bool" where
  "js_ge (Num a) (Num b) = (a \<ge> b)"
| "js_ge _ _ = False"

fun js_strict_eq :: "jsnum \<Rightarrow> jsnum \<Rightarrow> bool" where
  "js_strict_eq (Num a) (Num b) = (a = b)"
| "js_strict_eq _ _ = False"

fun js_add :: "jsnum \<Rightarrow> jsnum \<Rightarrow> jsnum" where
  "js_add (Num a) (Num b) = Num (a + b)"
| "js_add _ _ = NaN"

text \<open>The \<open>%\<close> operator: the remainder takes the sign of the dividend, and \<open>x % 0\<close> is \<open>NaN\<close>.\<close>

fun js_rem :: "jsnum \<Rightarrow> jsnum \<Rightarrow> jsnum" where
  "js_rem (Num a) (Num b) = (if b = 0 then NaN else Num (sgn a * (\<bar>a\<bar> mod \<bar>b\<bar>)))"
| "js_rem _ _ = NaN"

text \<open>\<open>xs[i]\<close> on an array: \<open>undefined\<close> (here \<open>None\<close>) outside the array and for \<open>NaN\<close>.\<close>

fun js_index :: "'a list \<Rightarrow> jsnum \<Rightarrow> 'a option" where
  "js_index xs (Num i) = (if 0 \<le> i \<and> i < int (length xs) then Some (xs ! nat i) else None)"
| "js_index xs NaN = None"

datatype js_error = Error string | TypeError string | SyntaxError string

fun message :: "js_error \<Rightarrow> string" where
  "message (Error m) = m"
| "message (TypeError m) = m"
| "message (SyntaxError m) = m"

subsection \<open>Numbers to strings and back\<close>

definition digit_char :: "nat \<Rightarrow> char" where
  "digit_char n = ''0123456789'' ! (n mod 10)"

fun digits :: "nat \<Rightarrow> string" where
  "digits n = (if n < 10 then [digit_char n] else digits (n div 10) @ [digit_char n])"

declare digits.simps [simp del]

text \<open>\<open>String(n)\<close>, as a template literal \<open>${n}\<close> interpolates an integer.\<close>

definition String_of_int :: "int \<Rightarrow> string" where
  "String_of_int i = (if i < 0 then ''-'' @ digits (nat (- i)) else digits (nat i))"

text \<open>
  \<open>n.toLocaleString()\<close> of an integer in the \<open>en-US\<close> locale: the decimal digits in groups
  of three, separated by commas (the source's comment: "Format with commas").
  \<open>commas\<close> works on the digits from the least significant one.
\<close>

fun commas :: "string \<Rightarrow> string" where
  "commas (a # b # c # d # rest) = a # b # c # CHR '','' # commas (d # rest)"
| "commas ds = ds"

definition toLocaleString :: "int \<Rightarrow> string" where
  "toLocaleString i =
     (if i < 0 then ''-'' @ rev (commas (rev (digits (nat (- i)))))
      else rev (commas (rev (digits (nat i)))))"

text \<open>
  \<open>parseInt(s, 10)\<close>: leading white space is skipped, one sign is read, then the longest
  run of decimal digits; no digit gives \<open>NaN\<close>. Strings are byte strings here, so the
  white space is the ASCII part of JavaScript's (TAB, LF, VT, FF, CR, space).
\<close>

definition is_space :: "char \<Rightarrow> bool" where
  "is_space c = (c \<in> set [CHR 0x09, CHR 0x0A, CHR 0x0B, CHR 0x0C, CHR 0x0D, CHR '' ''])"

definition is_digit :: "char \<Rightarrow> bool" where
  "is_digit c = (c \<in> set ''0123456789'')"

definition digit_val :: "char \<Rightarrow> int" where
  "digit_val c = int (of_char c) - 48"

definition parse_digits :: "string \<Rightarrow> jsnum" where
  "parse_digits s =
     (let z = takeWhile is_digit s
      in if z = [] then NaN else Num (foldl (\<lambda>acc c. 10 * acc + digit_val c) 0 z))"

fun js_negate :: "jsnum \<Rightarrow> jsnum" where
  "js_negate (Num a) = Num (- a)"
| "js_negate NaN = NaN"

definition parseInt10 :: "string \<Rightarrow> jsnum" where
  "parseInt10 s =
     (case dropWhile is_space s of
        [] \<Rightarrow> NaN
      | c # cs \<Rightarrow>
          if c = CHR ''-'' then js_negate (parse_digits cs)
          else if c = CHR ''+'' then parse_digits cs
          else parse_digits (c # cs))"

section \<open>Data model\<close>

text \<open>
  One element of \<open>rawData.data\<close>, the parsed dataset file, and the entry that
  \<open>processRawData\<close> builds. Population counts are integers.
\<close>

record row =
  row_ageGroup :: string
  row_male :: int
  row_female :: int

text \<open>
  Arrays of rows live in a store, because \<open>Array.prototype.reverse\<close> works in place: an
  address is a position in the store, allocation appends. \<open>raw_data\<close> is the reference held
  by the field \<open>rawData.data\<close>; a reference to nothing stands for a document whose
  \<open>data\<close> field is missing.
\<close>

type_synonym addr = nat
type_synonym store = "row list list"

record rawData =
  raw_year :: int
  raw_country :: string
  raw_data :: addr

record yearData =
  year :: int
  country :: string
  ageGroups :: "string list"
  male :: "int list"
  female :: "int list"

subsection \<open>processRawData\<close>

text \<open>\<open>[...a]\<close>: a fresh array with the elements of \<open>a\<close>; the new reference and the store.\<close>

definition spread :: "store \<Rightarrow> addr \<Rightarrow> addr \<times> store" where
  "spread h a = (length h, h @ [h ! a])"

text \<open>\<open>a.reverse()\<close>: reverses the array at \<open>a\<close> in place and returns the same reference.\<close>

definition reverse_in_place :: "store \<Rightarrow> addr \<Rightarrow> addr \<times> store" where
  "reverse_in_place h a = (a, h[a := rev (h ! a)])"

definition processRawData :: "store \<Rightarrow> rawData \<Rightarrow> store \<times> (js_error + yearData list)" where
  "processRawData h rawData =
     (if raw_data rawData \<ge> length h
      then (h, Inl (TypeError ''rawData.data is not iterable''))
      else
        let (copy, h1) = spread h (raw_data rawData);
            (reversedData, h2) = reverse_in_place h1 copy;
            yearData = \<lparr> year = raw_year rawData,
                         country = raw_country rawData,
                         ageGroups = map row_ageGroup (h2 ! reversedData),
                         male = map row_male (h2 ! reversedData),
                         female = map row_female (h2 ! reversedData) \<rparr>
        in (h2, Inr [yearData]))"

section \<open>The page: script variables, document and host\<close>

subsection \<open>Chart.js instances\<close>

text \<open>
  What the script binds to a chart: the category labels and the two datasets. \<open>updates\<close>
  counts the calls of \<open>update()\<close> on the instance. An instance is live from \<open>new Chart\<close>
  until \<open>destroy()\<close>; the live ones are kept in \<open>liveCharts\<close> of the page state.
\<close>

record dataset =
  ds_label :: string
  ds_data :: "int list"

record chart =
  chartId :: nat
  labels :: "string list"
  dataset0 :: dataset
  dataset1 :: dataset
  updates :: nat

text \<open>The two display callbacks of the chart options: \<open>scales.x.ticks.callback\<close> and
  \<open>plugins.tooltip.callbacks.label\<close>, the latter given \<open>context.dataset.label\<close> and
  \<open>context.parsed.x\<close> (\<open>None\<close> for \<open>null\<close>).\<close>

definition ticks_callback :: "int \<Rightarrow> int" where
  "ticks_callback v = \<bar>v\<bar>"

definition tooltip_label :: "string \<Rightarrow> int option \<Rightarrow> string" where
  "tooltip_label dataset_label parsed_x =
     (let label0 = dataset_label;
          label1 = (if label0 \<noteq> [] then label0 @ '': '' else label0)
      in case parsed_x of
           Some x \<Rightarrow> label1 @ toLocaleString \<bar>x\<bar>
         | None \<Rightarrow> label1)"

subsection \<open>Timers, class lists, query parameters\<close>

text \<open>\<open>setTimeout\<close> and \<open>setInterval\<close> draw their handles from one pool, and either
  \<open>clear\<close> function cancels either kind. A timer is its handle and what it runs.\<close>

datatype timer_kind = HideMessage | AnimationTick | ResizeDebounce

definition class_add :: "string list \<Rightarrow> string list \<Rightarrow> string list" where
  "class_add new cs = cs @ filter (\<lambda>c. c \<notin> set cs) (remdups new)"

definition class_remove :: "string list \<Rightarrow> string list \<Rightarrow> string list" where
  "class_remove old cs = filter (\<lambda>c. c \<notin> set old) cs"

definition class_replace :: "string \<Rightarrow> string \<Rightarrow> string list \<Rightarrow> string list" where
  "class_replace old new cs =
     (if old \<in> set cs then remdups (map (\<lambda>c. if c = old then new else c) cs) else cs)"

text \<open>\<open>URLSearchParams.get\<close> is \<open>map_of\<close> (the first value of the name, \<open>None\<close> for \<open>null\<close>);
  \<open>set\<close> overwrites the first occurrence and drops the others.\<close>

fun params_set :: "string \<Rightarrow> string \<Rightarrow> (string \<times> string) list \<Rightarrow> (string \<times> string) list" where
  "params_set k v [] = [(k, v)]"
| "params_set k v (p # ps) =
     (if fst p = k then (k, v) # filter (\<lambda>q. fst q \<noteq> k) ps else p # params_set k v ps)"

text \<open>A string or \<open>null\<close> in a condition: \<open>null\<close> and the empty string are falsy.\<close>

fun truthy :: "string option \<Rightarrow> bool" where
  "truthy None = False"
| "truthy (Some s) = (s \<noteq> [])"

subsection \<open>The state\<close>

text \<open>
  The script's global variables, the parts of the document it writes, and the host's
  timers, live charts and address bar. \<open>shown\<close> is the history of the message box, the
  latest message first; \<open>fetched\<close> is the list of the files requested with \<open>fetch\<close>, in order. \<open>clickListeners\<close> and \<open>inputListeners\<close> count the listeners that
  \<open>setupControls\<close> has added to the button and the slider.
\<close>

record state =
  heap :: store
  pyramidChart :: "chart option"
  allYearsData :: "yearData list"
  currentYearIndex :: jsnum
  animationInterval :: "nat option"
  isPlaying :: bool
  countryList :: "string list"
  resizeTimeout :: "nat option"
  countrySelector_options :: "(string \<times> string) list"
  countrySelector_value :: string
  playPauseButton_text :: string
  playPauseButton_classes :: "string list"
  yearSlider_value :: jsnum
  yearSlider_max :: int
  currentYearDisplay :: string
  dataSourceInfo :: string
  messageBox_text :: string
  messageBox_classes :: "string list"
  controlsContainer_classes :: "string list"
  sliderComponents_classes :: "string list"
  sliderMinYear :: string
  sliderMaxYear :: string
  loadingIndicator_classes :: "string list"
  clickListeners :: nat
  inputListeners :: nat
  location_search :: "(string \<times> string) list"
  timers :: "(nat \<times> timer_kind) list"
  nextTimerId :: nat
  liveCharts :: "nat list"
  nextChartId :: nat
  shown :: "(string \<times> string) list"
  fetched :: "string list"

text \<open>The page as index.html and the script's declarations leave it, before \<open>onload\<close>,
  opened with the query parameters \<open>search\<close>.\<close>

definition initial_state :: "(string \<times> string) list \<Rightarrow> state" where
  "initial_state search =
     \<lparr> heap = [], pyramidChart = None, allYearsData = [], currentYearIndex = Num 0,
       animationInterval = None, isPlaying = False, countryList = [], resizeTimeout = None,
       countrySelector_options = [([], ''Loading countries...'')],
       countrySelector_value = [],
       playPauseButton_text = ''Play'',
       playPauseButton_classes = [''bg-blue-500'', ''hover:bg-blue-600'', ''text-white'',
         ''font-semibold'', ''py-2'', ''px-6'', ''rounded-lg'', ''shadow-md'', ''transition'',
         ''duration-150'', ''ease-in-out'', ''focus:outline-none'', ''focus:ring-2'',
         ''focus:ring-blue-400'', ''focus:ring-opacity-75'', ''w-full'', ''sm:w-auto''],
       yearSlider_value = Num 0, yearSlider_max = 0,
       currentYearDisplay = ''Year: Loading...'',
       dataSourceInfo = ''Data: Loading...'',
       messageBox_text = [],
       messageBox_classes = [''mt-4'', ''p-3'', ''text-center'', ''text-sm'', ''rounded-lg'',
         ''hidden''],
       controlsContainer_classes = [''flex'', ''flex-col'', ''sm:flex-row'', ''items-center'',
         ''justify-center'', ''space-y-4'', ''sm:space-y-0'', ''sm:space-x-4''],
       sliderComponents_classes = [''flex'', ''items-center'', ''space-x-2'', ''w-full'',
         ''sm:w-auto'', ''sm:flex-1''],
       sliderMinYear = [], sliderMaxYear = [],
       loadingIndicator_classes = [''loading'', ''hidden''],
       clickListeners = 0, inputListeners = 0,
       location_search = search,
       timers = [], nextTimerId = 1, liveCharts = [], nextChartId = 0, shown = [],
       fetched = [] \<rparr>"

definition set_timer :: "timer_kind \<Rightarrow> state \<Rightarrow> nat \<times> state" where
  "set_timer k st =
     (nextTimerId st,
      st\<lparr> timers := timers st @ [(nextTimerId st, k)], nextTimerId := Suc (nextTimerId st) \<rparr>)"

definition clear_timer :: "nat option \<Rightarrow> state \<Rightarrow> state" where
  "clear_timer handle st =
     (case handle of
        None \<Rightarrow> st
      | Some i \<Rightarrow> st\<lparr> timers := filter (\<lambda>t. fst t \<noteq> i) (timers st) \<rparr>)"

subsection \<open>Utility functions\<close>

definition showMessage :: "state \<Rightarrow> string \<Rightarrow> string \<Rightarrow> state" where
  "showMessage st msg type =
     (let cs0 = class_remove [''hidden'', ''bg-green-100'', ''text-green-700'', ''bg-red-100'',
                  ''text-red-700'', ''bg-blue-100'', ''text-blue-700''] (messageBox_classes st);
          cs1 = (if type = ''success'' then class_add [''bg-green-100'', ''text-green-700''] cs0
                 else if type = ''error'' then class_add [''bg-red-100'', ''text-red-700''] cs0
                 else class_add [''bg-blue-100'', ''text-blue-700''] cs0);
          cs2 = class_remove [''hidden''] cs1;
          st1 = st\<lparr> messageBox_text := msg, messageBox_classes := cs2,
                    shown := (msg, type) # shown st \<rparr>
      in snd (set_timer HideMessage st1))"

definition showLoading :: "state \<Rightarrow> bool \<Rightarrow> state" where
  "showLoading st show =
     (if show
      then st\<lparr> loadingIndicator_classes := class_remove [''hidden''] (loadingIndicator_classes st) \<rparr>
      else st\<lparr> loadingIndicator_classes := class_add [''hidden''] (loadingIndicator_classes st) \<rparr>)"

subsection \<open>Chart functions\<close>

definition destroy :: "chart \<Rightarrow> state \<Rightarrow> state" where
  "destroy c st = st\<lparr> liveCharts := removeAll (chartId c) (liveCharts st) \<rparr>"

definition new_Chart :: "string list \<Rightarrow> dataset \<Rightarrow> dataset \<Rightarrow> state \<Rightarrow> chart \<times> state" where
  "new_Chart ls d0 d1 st =
     (\<lparr> chartId = nextChartId st, labels = ls, dataset0 = d0, dataset1 = d1, updates = 0 \<rparr>,
      st\<lparr> liveCharts := liveCharts st @ [nextChartId st], nextChartId := Suc (nextChartId st) \<rparr>)"

definition undefined_property :: "string \<Rightarrow> js_error" where
  "undefined_property name =
     TypeError (''Cannot read properties of undefined (reading '' @ [CHR 0x27] @ name @ [CHR 0x27] @ '')'')"

definition initializeChart :: "state \<Rightarrow> jsnum \<Rightarrow> state \<times> js_error option" where
  "initializeChart st dataIndex =
     (if allYearsData st = [] \<or> js_lt dataIndex (Num 0)
         \<or> js_ge dataIndex (Num (int (length (allYearsData st))))
      then
        (let st1 = showMessage st ''No data available to display chart.'' ''error''
         in (st1\<lparr> dataSourceInfo := ''Error: Could not load data.'',
                   currentYearDisplay := ''Year: ---'' \<rparr>, None))
      else
        case js_index (allYearsData st) dataIndex of
          None \<Rightarrow> (st, Some (undefined_property ''year''))
        | Some currentData \<Rightarrow>
            let st1 = st\<lparr> currentYearDisplay := ''Year: '' @ String_of_int (year currentData),
                          dataSourceInfo := ''Data for '' @ [CHR 0x22] @ country currentData @ [CHR 0x22],
                          yearSlider_value := dataIndex \<rparr>;
                maleDataNegative = map uminus (male currentData);
                st2 = (case pyramidChart st1 of Some c \<Rightarrow> destroy c st1 | None \<Rightarrow> st1);
                (c, st3) = new_Chart (ageGroups currentData)
                             \<lparr> ds_label = ''Male'', ds_data = maleDataNegative \<rparr>
                             \<lparr> ds_label = ''Female'', ds_data = female currentData \<rparr> st2
            in (st3\<lparr> pyramidChart := Some c \<rparr>, None))"

definition updateChartForAnimation :: "state \<Rightarrow> jsnum \<Rightarrow> state \<times> js_error option" where
  "updateChartForAnimation st dataIndex =
     (if js_lt dataIndex (Num 0) \<or> js_ge dataIndex (Num (int (length (allYearsData st))))
      then (st, None)
      else
        let st1 = st\<lparr> currentYearIndex := dataIndex \<rparr>
        in case js_index (allYearsData st1) (currentYearIndex st1) of
             None \<Rightarrow> (st1, Some (undefined_property ''year''))
           | Some d \<Rightarrow>
               let st2 = st1\<lparr> currentYearDisplay := ''Year: '' @ String_of_int (year d),
                              yearSlider_value := currentYearIndex st1 \<rparr>
               in case pyramidChart st2 of
                    None \<Rightarrow> (st2, Some (undefined_property ''data''))
                  | Some c \<Rightarrow>
                      (st2\<lparr> pyramidChart := Some
                              (c\<lparr> labels := ageGroups d,
                                  dataset0 := (dataset0 c)\<lparr> ds_data := map uminus (male d) \<rparr>,
                                  dataset1 := (dataset1 c)\<lparr> ds_data := female d \<rparr>,
                                  updates := Suc (updates c) \<rparr>) \<rparr>, None))"

subsection \<open>Animation controls\<close>

text \<open>The callback that \<open>startAnimation\<close> hands to \<open>setInterval\<close>.\<close>

definition tick :: "state \<Rightarrow> state \<times> js_error option" where
  "tick st =
     (let st1 = st\<lparr> currentYearIndex :=
                     js_rem (js_add (currentYearIndex st) (Num 1))
                            (Num (int (length (allYearsData st)))) \<rparr>
      in updateChartForAnimation st1 (currentYearIndex st1))"

definition startAnimation :: "state \<Rightarrow> state" where
  "startAnimation st =
     (if isPlaying st \<or> length (allYearsData st) \<le> 1 then st
      else
        let st1 = st\<lparr> isPlaying := True, playPauseButton_text := ''Pause'',
                      playPauseButton_classes :=
                        class_replace ''hover:bg-blue-600'' ''hover:bg-red-600''
                          (class_replace ''bg-blue-500'' ''bg-red-500'' (playPauseButton_classes st)) \<rparr>;
            (handle, st2) = set_timer AnimationTick st1;
            st3 = st2\<lparr> animationInterval := Some handle \<rparr>
        in showMessage st3 ''Animation started!'' ''info'')"

definition stopAnimation :: "state \<Rightarrow> state" where
  "stopAnimation st =
     (if \<not> isPlaying st then st
      else
        let st1 = st\<lparr> isPlaying := False, playPauseButton_text := ''Play'',
                      playPauseButton_classes :=
                        class_replace ''hover:bg-red-600'' ''hover:bg-blue-600''
                          (class_replace ''bg-red-500'' ''bg-blue-500'' (playPauseButton_classes st)) \<rparr>;
            st2 = clear_timer (animationInterval st1) st1
        in showMessage st2 ''Animation paused.'' ''info'')"

text \<open>The two listeners that \<open>setupControls\<close> adds, and \<open>setupControls\<close> itself.\<close>

definition playPauseButton_click :: "state \<Rightarrow> state" where
  "playPauseButton_click st = (if isPlaying st then stopAnimation st else startAnimation st)"

definition yearSlider_input :: "state \<Rightarrow> string \<Rightarrow> state \<times> js_error option" where
  "yearSlider_input st target_value =
     (let st1 = stopAnimation st;
          newIndex = parseInt10 target_value
      in if \<not> js_strict_eq newIndex (currentYearIndex st1)
         then updateChartForAnimation st1 newIndex
         else (st1, None))"

definition setupControls :: "state \<Rightarrow> state" where
  "setupControls st =
     (if length (allYearsData st) \<le> 1 then
        let st1 = st\<lparr> playPauseButton_classes :=
                        class_add [''hidden-controls''] (playPauseButton_classes st),
                      sliderComponents_classes :=
                        class_add [''hidden-controls''] (sliderComponents_classes st) \<rparr>
        in if length (allYearsData st1) = 1
           then st1\<lparr> currentYearDisplay := ''Year: '' @ String_of_int (year (allYearsData st1 ! 0)),
                     dataSourceInfo :=
                       ''Data for '' @ [CHR 0x22] @ country (allYearsData st1 ! 0) @ [CHR 0x22] \<rparr>
           else st1
      else
        st\<lparr> playPauseButton_classes :=
              class_remove [''hidden-controls''] (playPauseButton_classes st),
            sliderComponents_classes :=
              class_remove [''hidden-controls''] (sliderComponents_classes st),
            yearSlider_max := int (length (allYearsData st)) - 1,
            yearSlider_value := currentYearIndex st,
            sliderMinYear := String_of_int (year (allYearsData st ! 0)),
            sliderMaxYear := String_of_int (year (allYearsData st ! (length (allYearsData st) - 1))),
            clickListeners := Suc (clickListeners st),
            inputListeners := Suc (inputListeners st) \<rparr>)"

subsection \<open>Data loading\<close>

text \<open>
  What the server answers. A \<open>fetch\<close> is rejected with a message, or responds with a status
  and a body that \<open>response.json()\<close> either fails to parse (the message) or parses. Each
  \<open>async\<close> function is run to its end in one step.
\<close>

datatype 'a fetch_result = Rejected string | Responded nat "string + 'a"

record jsonDoc =
  doc_year :: int
  doc_country :: string
  doc_data :: "row list"

record env =
  catalog_file :: "string list fetch_result"
  dataset_file :: "string \<Rightarrow> jsonDoc fetch_result"

definition response_ok :: "nat \<Rightarrow> bool" where
  "response_ok status = (200 \<le> status \<and> status \<le> 299)"

text \<open>\<open>response.json()\<close> on a dataset: the parsed document is new, its rows a new array.\<close>

definition json_alloc :: "store \<Rightarrow> jsonDoc \<Rightarrow> store \<times> rawData" where
  "json_alloc h doc =
     (h @ [doc_data doc],
      \<lparr> raw_year = doc_year doc, raw_country = doc_country doc, raw_data = length h \<rparr>)"

definition loadAndDisplayChart_catch :: "state \<Rightarrow> js_error \<Rightarrow> state" where
  "loadAndDisplayChart_catch st error =
     (let st1 = showMessage st (''Error: '' @ message error) ''error'';
          st2 = st1\<lparr> dataSourceInfo := ''Error: Could not load data.'',
                      currentYearDisplay := ''Year: ---'',
                      controlsContainer_classes :=
                        class_add [''hidden-controls''] (controlsContainer_classes st1) \<rparr>
      in showLoading st2 False)"

text \<open>Lines 244 to 254: the \<open>year\<close> parameter picks the entry to show.\<close>

definition findIndex_year :: "yearData list \<Rightarrow> jsnum \<Rightarrow> jsnum" where
  "findIndex_year ys requestedYear =
     (case find (\<lambda>i. js_strict_eq (Num (year (ys ! i))) requestedYear) [0 ..< length ys] of
        Some i \<Rightarrow> Num (int i)
      | None \<Rightarrow> Num (- 1))"

definition select_year :: "state \<Rightarrow> state" where
  "select_year st =
     (let yearParam = map_of (location_search st) ''year''
      in if truthy yearParam \<and> length (allYearsData st) > 0 then
           let requestedYear = parseInt10 (the yearParam);
               foundIndex = findIndex_year (allYearsData st) requestedYear
           in if foundIndex \<noteq> Num (- 1)
              then st\<lparr> currentYearIndex := foundIndex \<rparr>
              else showMessage st (''Year '' @ the yearParam
                     @ '' not found in dataset. Defaulting to first available year.'') ''error''
         else st)"

text \<open>The argument is \<open>None\<close> when the caller passes \<open>undefined\<close>; the default parameter
  \<open>'Algeria'\<close> then applies.\<close>

definition countryName :: "string option \<Rightarrow> string" where
  "countryName arg = (case arg of None \<Rightarrow> ''Algeria'' | Some c \<Rightarrow> c)"

definition jsonFilePath :: "string \<Rightarrow> string" where
  "jsonFilePath name =
     ''data/'' @ map (\<lambda>c. if c = CHR '' '' then CHR ''_'' else c) name @ ''_pyramid.json''"

text \<open>Lines 241 to 258: the rest of the \<open>try\<close> block once the response has arrived with a
  success status and \<open>response.json()\<close> has parsed it.\<close>

definition loadAndDisplayChart_parsed :: "state \<Rightarrow> jsonDoc \<Rightarrow> state" where
  "loadAndDisplayChart_parsed st1 doc =
     (let (h1, rawData) = json_alloc (heap st1) doc
      in case processRawData h1 rawData of
           (h2, Inl err) \<Rightarrow> loadAndDisplayChart_catch (st1\<lparr> heap := h2 \<rparr>) err
         | (h2, Inr ys) \<Rightarrow>
             let st2 = st1\<lparr> heap := h2, allYearsData := ys \<rparr>;
                 st3 = select_year st2
             in case initializeChart st3 (currentYearIndex st3) of
                  (st4, Some err) \<Rightarrow> loadAndDisplayChart_catch st4 err
                | (st4, None) \<Rightarrow> showLoading (setupControls st4) False)"

definition loadAndDisplayChart :: "env \<Rightarrow> state \<Rightarrow> string option \<Rightarrow> state" where
  "loadAndDisplayChart e st arg =
     (let st0 = showLoading st True;
          st1 = st0\<lparr> fetched := fetched st0 @ [jsonFilePath (countryName arg)] \<rparr>
      in case dataset_file e (jsonFilePath (countryName arg)) of
           Rejected m \<Rightarrow> loadAndDisplayChart_catch st1 (TypeError m)
         | Responded status body \<Rightarrow>
             if \<not> response_ok status
             then loadAndDisplayChart_catch st1
                    (Error (''HTTP error! status: '' @ String_of_int (int status)
                            @ '' - Could not fetch '' @ jsonFilePath (countryName arg)))
             else case body of
               Inl m \<Rightarrow> loadAndDisplayChart_catch st1 (SyntaxError m)
             | Inr doc \<Rightarrow> loadAndDisplayChart_parsed st1 doc)"

subsection \<open>Country list loading\<close>

definition select_set_value :: "string \<Rightarrow> state \<Rightarrow> state" where
  "select_set_value v st =
     st\<lparr> countrySelector_value :=
           (if v \<in> set (map fst (countrySelector_options st)) then v else []) \<rparr>"

definition loadCountryList_catch :: "env \<Rightarrow> state \<Rightarrow> state" where
  "loadCountryList_catch e st =
     loadAndDisplayChart e
       (showMessage st ''Could not load country list. Using default country.'' ''error'')
       (Some ''Algeria'')"

definition loadCountryList :: "env \<Rightarrow> state \<Rightarrow> state" where
  "loadCountryList e st0 =
     (let st = st0\<lparr> fetched := fetched st0 @ [''data/country_list.json''] \<rparr>
      in case catalog_file e of
        Rejected m \<Rightarrow> loadCountryList_catch e st
      | Responded status body \<Rightarrow>
          if \<not> response_ok status then loadCountryList_catch e st
          else case body of
            Inl m \<Rightarrow> loadCountryList_catch e st
          | Inr cl \<Rightarrow>
              let st1 = st\<lparr> countryList := cl \<rparr>;
                  st2 = st1\<lparr> countrySelector_options :=
                          ([], ''Select a country'')
                          # map (\<lambda>c. (c, map (\<lambda>x. if x = CHR ''_'' then CHR '' '' else x) c))
                              (countryList st1),
                        countrySelector_value := [] \<rparr>;
                  countryParam = map_of (location_search st2) ''country''
              in if truthy countryParam \<and> the countryParam \<in> set (countryList st2)
                 then loadAndDisplayChart e (select_set_value (the countryParam) st2) countryParam
                 else
                   let defaultCountry =
                         (if ''Algeria'' \<in> set (countryList st2) then Some ''Algeria''
                          else case countryList st2 of [] \<Rightarrow> None | c # _ \<Rightarrow> Some c)
                   in loadAndDisplayChart e
                        (select_set_value
                           (case defaultCountry of None \<Rightarrow> ''undefined'' | Some c \<Rightarrow> c) st2)
                        defaultCountry)"

subsection \<open>Events\<close>

text \<open>
  What the host can deliver after \<open>onload\<close>: a timer that is due, a click on the button,
  a move of the slider (with the slider's new value), a choice in the country selector,
  a resize of the window. A listener that throws does not keep the next one from running.
\<close>

datatype event =
    TimerFired nat
  | PlayPauseClick
  | SliderInput string
  | CountryChange string
  | Resize

definition countrySelector_change :: "env \<Rightarrow> state \<Rightarrow> string \<Rightarrow> state" where
  "countrySelector_change e st selectedCountry =
     (if selectedCountry \<noteq> [] then
        loadAndDisplayChart e
          (st\<lparr> countrySelector_value := selectedCountry,
               location_search := params_set ''country'' selectedCountry (location_search st) \<rparr>)
          (Some selectedCountry)
      else st\<lparr> countrySelector_value := selectedCountry \<rparr>)"

definition window_resize :: "state \<Rightarrow> state" where
  "window_resize st =
     (let st1 = clear_timer (resizeTimeout st) st;
          (handle, st2) = set_timer ResizeDebounce st1
      in st2\<lparr> resizeTimeout := Some handle \<rparr>)"

definition timer_fired :: "state \<Rightarrow> nat \<Rightarrow> state" where
  "timer_fired st i =
     (case map_of (timers st) i of
        None \<Rightarrow> st
      | Some HideMessage \<Rightarrow>
          (clear_timer (Some i) st)
            \<lparr> messageBox_classes := class_add [''hidden''] (messageBox_classes st) \<rparr>
      | Some AnimationTick \<Rightarrow> fst (tick st)
      | Some ResizeDebounce \<Rightarrow> clear_timer (Some i) st)"

definition handle_event :: "env \<Rightarrow> state \<Rightarrow> event \<Rightarrow> state" where
  "handle_event e st ev =
     (case ev of
        TimerFired i \<Rightarrow> timer_fired st i
      | PlayPauseClick \<Rightarrow> (playPauseButton_click ^^ clickListeners st) st
      | SliderInput v \<Rightarrow> ((\<lambda>s. fst (yearSlider_input s v)) ^^ inputListeners st) st
      | CountryChange c \<Rightarrow> countrySelector_change e st c
      | Resize \<Rightarrow> window_resize st)"

definition run :: "env \<Rightarrow> state \<Rightarrow> event list \<Rightarrow> state" where
  "run e st evs = foldl (handle_event e) st evs"

definition window_onload :: "env \<Rightarrow> state \<Rightarrow> state" where
  "window_onload e st = loadCountryList e st"

subsection \<open>Properties of states\<close>

text \<open>The state after \<open>k\<close> firings of the animation interval.\<close>

definition after_ticks :: "nat \<Rightarrow> state \<Rightarrow> state" where
  "after_ticks k st = ((\<lambda>s. fst (tick s)) ^^ k) st"

text \<open>The handles of the pending animation timers.\<close>

definition tick_timers :: "state \<Rightarrow> nat list" where
  "tick_timers st = map fst (filter (\<lambda>t. snd t = AnimationTick) (timers st))"

text \<open>Every pending animation timer is the one the script holds in \<open>animationInterval\<close>,
  and there is none unless the animation is playing.\<close>

definition timer_inv :: "state \<Rightarrow> bool" where
  "timer_inv st =
     (set (tick_timers st) \<subseteq> (if isPlaying st then set_option (animationInterval st) else {}))"

text \<open>The live chart instances are exactly the one the script holds in \<open>pyramidChart\<close>,
  and the next instance will be a new one.\<close>

definition chart_inv :: "state \<Rightarrow> bool" where
  "chart_inv st =
     (case pyramidChart st of
        None \<Rightarrow> liveCharts st = []
      | Some c \<Rightarrow> liveCharts st = [chartId c] \<and> chartId c < nextChartId st)"

text \<open>The entry that \<open>processRawData\<close> makes of a parsed dataset file.\<close>

definition entry_of :: "jsonDoc \<Rightarrow> yearData" where
  "entry_of doc =
     \<lparr> year = doc_year doc, country = doc_country doc,
       ageGroups = rev (map row_ageGroup (doc_data doc)),
       male = rev (map row_male (doc_data doc)),
       female = rev (map row_female (doc_data doc)) \<rparr>"

text \<open>The chart that \<open>initializeChart\<close> builds for an entry.\<close>

definition chart_of :: "nat \<Rightarrow> yearData \<Rightarrow> chart" where
  "chart_of i d =
     \<lparr> chartId = i, labels = ageGroups d,
       dataset0 = \<lparr> ds_label = ''Male'', ds_data = map uminus (male d) \<rparr>,
       dataset1 = \<lparr> ds_label = ''Female'', ds_data = female d \<rparr>,
       updates = 0 \<rparr>"

subsection \<open>Example data\<close>

text \<open>The dataset of the specification's example, a server that has this file only, and
  two entries of a series with more than one year.\<close>

definition example_doc :: jsonDoc where
  "example_doc =
     \<lparr> doc_year = 2025, doc_country = ''Algeria'',
       doc_data = [\<lparr>row_ageGroup = ''0-4'', row_male = 100, row_female = 95\<rparr>,
                   \<lparr>row_ageGroup = ''5-9'', row_male = 110, row_female = 105\<rparr>] \<rparr>"

definition example_files :: "string \<Rightarrow> jsonDoc fetch_result" where
  "example_files path =
     (if path = ''data/Algeria_pyramid.json'' then Responded 200 (Inr example_doc)
      else Responded 404 (Inl ''Unexpected token''))"

definition example_env :: "string list fetch_result \<Rightarrow> env" where
  "example_env cat = \<lparr> catalog_file = cat, dataset_file = example_files \<rparr>"

definition example_series :: "yearData list" where
  "example_series =
     [\<lparr> year = 2020, country = ''Algeria'', ageGroups = [''5-9'', ''0-4''],
        male = [108, 98], female = [103, 94] \<rparr>,
      \<lparr> year = 2025, country = ''Algeria'', ageGroups = [''5-9'', ''0-4''],
        male = [110, 100], female = [105, 95] \<rparr>,
      \<lparr> year = 2030, country = ''Algeria'', ageGroups = [''5-9'', ''0-4''],
        male = [112, 101], female = [106, 97] \<rparr>]"

text \<open>A page showing the first of the three entries, as \<open>initializeChart\<close> and
  \<open>setupControls\<close> leave it for a series of three years.\<close>

definition example_state :: state where
  "example_state =
     (initial_state [])
       \<lparr> allYearsData := example_series,
         pyramidChart := Some (chart_of 0 (example_series ! 0)),
         liveCharts := [0], nextChartId := 1,
         yearSlider_max := 2, clickListeners := 1, inputListeners := 1 \<rparr>"

section \<open>Normalisation\<close>

lemma processRawData_eq:
  assumes "raw_data rawData < length h"
  shows "processRawData h rawData =
           (h @ [rev (h ! raw_data rawData)],
            Inr [\<lparr> year = raw_year rawData, country = raw_country rawData,
                   ageGroups = rev (map row_ageGroup (h ! raw_data rawData)),
                   male = rev (map row_male (h ! raw_data rawData)),
                   female = rev (map row_female (h ! raw_data rawData)) \<rparr>])"
  using assms
  by (simp add: processRawData_def spread_def reverse_in_place_def rev_map)

text \<open>
  C1. For a dataset whose \<open>data\<close> array exists, \<open>processRawData\<close> returns exactly one entry;
  its age groups, male and female sequences are the input's in reverse order, all three as
  long as the input array; and no array that existed before the call is changed, the
  input's own array included.
\<close>

theorem processRawData_reverses:
  assumes "raw_data rawData < length h"
  shows "\<exists>h' e. processRawData h rawData = (h', Inr [e])
           \<and> year e = raw_year rawData \<and> country e = raw_country rawData
           \<and> ageGroups e = rev (map row_ageGroup (h ! raw_data rawData))
           \<and> male e = rev (map row_male (h ! raw_data rawData))
           \<and> female e = rev (map row_female (h ! raw_data rawData))
           \<and> length (ageGroups e) = length (h ! raw_data rawData)
           \<and> length (male e) = length (h ! raw_data rawData)
           \<and> length (female e) = length (h ! raw_data rawData)
           \<and> take (length h) h' = h
           \<and> h' ! raw_data rawData = h ! raw_data rawData"
  using assms by (simp add: processRawData_eq nth_append)

theorem processRawData_reverses_witness:
  "\<exists>h' e. processRawData
             [[\<lparr>row_ageGroup = ''0-4'', row_male = 100, row_female = 95\<rparr>,
               \<lparr>row_ageGroup = ''5-9'', row_male = 110, row_female = 105\<rparr>]]
             \<lparr>raw_year = 2025, raw_country = ''Algeria'', raw_data = 0\<rparr> = (h', Inr [e])
         \<and> ageGroups e = [''5-9'', ''0-4''] \<and> male e = [110, 100] \<and> female e = [105, 95]
         \<and> h' ! 0 = [\<lparr>row_ageGroup = ''0-4'', row_male = 100, row_female = 95\<rparr>,
                      \<lparr>row_ageGroup = ''5-9'', row_male = 110, row_female = 105\<rparr>]"
  using processRawData_reverses
    [of "\<lparr>raw_year = 2025, raw_country = ''Algeria'', raw_data = 0\<rparr>"
        "[[\<lparr>row_ageGroup = ''0-4'', row_male = 100, row_female = 95\<rparr>,
           \<lparr>row_ageGroup = ''5-9'', row_male = 110, row_female = 105\<rparr>]]"]
  by auto

section \<open>What the utility functions leave alone\<close>

lemma showMessage_frame [simp]:
  "heap (showMessage st m t) = heap st"
  "pyramidChart (showMessage st m t) = pyramidChart st"
  "allYearsData (showMessage st m t) = allYearsData st"
  "currentYearIndex (showMessage st m t) = currentYearIndex st"
  "animationInterval (showMessage st m t) = animationInterval st"
  "isPlaying (showMessage st m t) = isPlaying st"
  "countryList (showMessage st m t) = countryList st"
  "yearSlider_value (showMessage st m t) = yearSlider_value st"
  "currentYearDisplay (showMessage st m t) = currentYearDisplay st"
  "dataSourceInfo (showMessage st m t) = dataSourceInfo st"
  "loadingIndicator_classes (showMessage st m t) = loadingIndicator_classes st"
  "clickListeners (showMessage st m t) = clickListeners st"
  "inputListeners (showMessage st m t) = inputListeners st"
  "location_search (showMessage st m t) = location_search st"
  "liveCharts (showMessage st m t) = liveCharts st"
  "nextChartId (showMessage st m t) = nextChartId st"
  "fetched (showMessage st m t) = fetched st"
  "shown (showMessage st m t) = (m, t) # shown st"
  "messageBox_text (showMessage st m t) = m"
  "timers (showMessage st m t) = timers st @ [(nextTimerId st, HideMessage)]"
  "tick_timers (showMessage st m t) = tick_timers st"
  by (simp_all add: showMessage_def set_timer_def Let_def tick_timers_def)

lemma showLoading_frame [simp]:
  "heap (showLoading st b) = heap st"
  "pyramidChart (showLoading st b) = pyramidChart st"
  "allYearsData (showLoading st b) = allYearsData st"
  "currentYearIndex (showLoading st b) = currentYearIndex st"
  "animationInterval (showLoading st b) = animationInterval st"
  "isPlaying (showLoading st b) = isPlaying st"
  "countryList (showLoading st b) = countryList st"
  "yearSlider_value (showLoading st b) = yearSlider_value st"
  "currentYearDisplay (showLoading st b) = currentYearDisplay st"
  "dataSourceInfo (showLoading st b) = dataSourceInfo st"
  "clickListeners (showLoading st b) = clickListeners st"
  "inputListeners (showLoading st b) = inputListeners st"
  "location_search (showLoading st b) = location_search st"
  "liveCharts (showLoading st b) = liveCharts st"
  "nextChartId (showLoading st b) = nextChartId st"
  "fetched (showLoading st b) = fetched st"
  "shown (showLoading st b) = shown st"
  "messageBox_text (showLoading st b) = messageBox_text st"
  "timers (showLoading st b) = timers st"
  "tick_timers (showLoading st b) = tick_timers st"
  by (simp_all add: showLoading_def tick_timers_def)

section \<open>The in-place update and the animation\<close>

text \<open>
  C10. For every integer \<open>dataIndex\<close> below 0 or at least \<open>allYearsData.length\<close>,
  \<open>updateChartForAnimation\<close> returns at once and the whole state is as before: the index,
  the chart's labels and datasets, and the year display.
\<close>

theorem updateChartForAnimation_out_of_range:
  assumes "i < 0 \<or> int (length (allYearsData st)) \<le> i"
  shows "updateChartForAnimation st (Num i) = (st, None)"
  using assms by (auto simp add: updateChartForAnimation_def)

theorem updateChartForAnimation_out_of_range_witness:
  "updateChartForAnimation example_state (Num 3) = (example_state, None)
   \<and> updateChartForAnimation example_state (Num (- 1)) = (example_state, None)"
  using updateChartForAnimation_out_of_range [of 3 example_state]
    updateChartForAnimation_out_of_range [of "- 1" example_state]
  by (simp add: example_state_def example_series_def)

lemma js_rem_nonneg: "0 \<le> a \<Longrightarrow> 0 < b \<Longrightarrow> js_rem (Num a) (Num b) = Num (a mod b)"
  by (cases "a = 0") simp_all

lemma updateChartForAnimation_keeps:
  "allYearsData (fst (updateChartForAnimation st i)) = allYearsData st"
  "isPlaying (fst (updateChartForAnimation st i)) = isPlaying st"
  "animationInterval (fst (updateChartForAnimation st i)) = animationInterval st"
  "timers (fst (updateChartForAnimation st i)) = timers st"
  "liveCharts (fst (updateChartForAnimation st i)) = liveCharts st"
  "shown (fst (updateChartForAnimation st i)) = shown st"
  "fetched (fst (updateChartForAnimation st i)) = fetched st"
  "clickListeners (fst (updateChartForAnimation st i)) = clickListeners st"
  "inputListeners (fst (updateChartForAnimation st i)) = inputListeners st"
  by (simp_all add: updateChartForAnimation_def Let_def split: option.splits)

lemma updateChartForAnimation_index:
  "0 \<le> i \<Longrightarrow> i < int (length (allYearsData st)) \<Longrightarrow>
   currentYearIndex (fst (updateChartForAnimation st (Num i))) = Num i"
  by (simp add: updateChartForAnimation_def Let_def split: option.splits)

lemma tick_step:
  assumes "currentYearIndex st = Num i" "0 \<le> i" "allYearsData st \<noteq> []"
  shows "currentYearIndex (fst (tick st)) = Num ((i + 1) mod int (length (allYearsData st)))"
    and "allYearsData (fst (tick st)) = allYearsData st"
  using assms
  by (simp_all add: tick_def Let_def js_rem_nonneg updateChartForAnimation_keeps updateChartForAnimation_index)

lemma after_ticks_Suc: "after_ticks (Suc k) st = fst (tick (after_ticks k st))"
  by (simp add: after_ticks_def)

lemma after_ticks_index:
  assumes "currentYearIndex st = Num i" "0 \<le> i" "i < int (length (allYearsData st))"
  shows "currentYearIndex (after_ticks k st) = Num ((i + int k) mod int (length (allYearsData st)))
         \<and> allYearsData (after_ticks k st) = allYearsData st"
proof (induction k)
  case 0
  from assms show ?case by (simp add: after_ticks_def)
next
  case (Suc k)
  let ?n = "int (length (allYearsData st))"
  let ?s = "after_ticks k st"
  from assms have ne: "allYearsData ?s \<noteq> []" using Suc by auto
  have idx: "currentYearIndex ?s = Num ((i + int k) mod ?n)" using Suc by simp
  have nonneg: "0 \<le> (i + int k) mod ?n" by (rule pos_mod_sign) (use assms in linarith)
  have "currentYearIndex (fst (tick ?s)) = Num (((i + int k) mod ?n + 1) mod ?n)"
    using tick_step(1)[OF idx nonneg ne] Suc by simp
  moreover have "((i + int k) mod ?n + 1) mod ?n = (i + int (Suc k)) mod ?n"
  proof -
    have "((i + int k) mod ?n + 1) mod ?n = ((i + int k) + 1) mod ?n"
      by (rule mod_add_left_eq)
    also have "(i + int k) + 1 = i + int (Suc k)" by simp
    finally show ?thesis .
  qed
  moreover have "allYearsData (fst (tick ?s)) = allYearsData st"
    using tick_step(2)[OF idx nonneg ne] Suc by simp
  ultimately show ?case by (simp add: after_ticks_Suc)
qed

lemma shift_mod_neq:
  assumes "0 \<le> i" "i < int n" "0 < k" "k < n"
  shows "(i + int k) mod int n \<noteq> i"
proof
  assume eq: "(i + int k) mod int n = i"
  have "i mod int n = i" using assms by simp
  with eq have "(i + int k) mod int n = i mod int n" by simp
  then have "int n dvd (i + int k - i)" by (simp only: mod_eq_dvd_iff)
  then have "int n dvd int k" by simp
  then have "n dvd k" by (simp only: int_dvd_int_iff)
  with assms show False by (auto dest: dvd_imp_le)
qed

text \<open>
  C3. A tick of the animation sets the index to \<open>(currentYearIndex + 1) mod length\<close>. So from
  any index of a series of \<open>N\<close> entries, \<open>N\<close> ticks lead back to the index they started
  from, and fewer ticks (at least one) lead elsewhere.
\<close>

theorem tick_cycle:
  assumes "currentYearIndex st = Num i" "0 \<le> i" "i < int (length (allYearsData st))"
  shows "currentYearIndex (fst (tick st)) = Num ((i + 1) mod int (length (allYearsData st)))
       \<and> currentYearIndex (after_ticks (length (allYearsData st)) st) = Num i
       \<and> (\<forall>k. 0 < k \<and> k < length (allYearsData st)
              \<longrightarrow> currentYearIndex (after_ticks k st) \<noteq> Num i)"
proof -
  have ne: "allYearsData st \<noteq> []" using assms by auto
  have a: "currentYearIndex (fst (tick st)) = Num ((i + 1) mod int (length (allYearsData st)))"
    using tick_step(1)[OF assms(1,2) ne] .
  have b: "currentYearIndex (after_ticks (length (allYearsData st)) st) = Num i"
    using after_ticks_index[OF assms, of "length (allYearsData st)"] assms by simp
  have c: "currentYearIndex (after_ticks k st) \<noteq> Num i"
    if "0 < k \<and> k < length (allYearsData st)" for k
    using after_ticks_index[OF assms, of k] shift_mod_neq[OF assms(2,3), of k] that by simp
  from a b c show ?thesis by blast
qed

theorem tick_cycle_witness:
  "currentYearIndex (fst (tick (example_state\<lparr>currentYearIndex := Num 1\<rparr>))) = Num 2
   \<and> currentYearIndex (after_ticks 3 (example_state\<lparr>currentYearIndex := Num 1\<rparr>)) = Num 1
   \<and> currentYearIndex (after_ticks 1 (example_state\<lparr>currentYearIndex := Num 1\<rparr>)) \<noteq> Num 1
   \<and> currentYearIndex (after_ticks 2 (example_state\<lparr>currentYearIndex := Num 1\<rparr>)) \<noteq> Num 1"
proof -
  let ?s = "example_state\<lparr>currentYearIndex := Num 1\<rparr>"
  have len: "length (allYearsData example_state) = 3"
    by (simp add: example_state_def example_series_def)
  have p: "currentYearIndex ?s = Num 1" "(0::int) \<le> 1" "1 < int (length (allYearsData ?s))"
    by (simp_all add: len)
  note t = tick_cycle[OF p]
  from t have a: "currentYearIndex (fst (tick ?s)) = Num 2" by (simp add: len)
  from t have b: "currentYearIndex (after_ticks 3 ?s) = Num 1" by (simp add: len)
  from t have c: "\<forall>k. 0 < k \<and> k < 3 \<longrightarrow> currentYearIndex (after_ticks k ?s) \<noteq> Num 1"
    by (simp add: len)
  from c have c1: "currentYearIndex (after_ticks 1 ?s) \<noteq> Num 1" by simp
  from c have c2: "currentYearIndex (after_ticks 2 ?s) \<noteq> Num 1" by simp
  from a b c1 c2 show ?thesis by simp
qed

section \<open>Rendering\<close>

lemma digit_char_digit: "digit_char n \<in> set ''0123456789''"
  unfolding digit_char_def by (rule nth_mem) simp

lemma digits_set: "set (digits n) \<subseteq> set ''0123456789''"
proof (induction n rule: digits.induct)
  case (1 n)
  show ?case
  proof (cases "n < 10")
    case True
    then show ?thesis using digit_char_digit[of n] by (subst digits.simps) simp
  next
    case False
    then show ?thesis using 1 digit_char_digit[of n] by (subst digits.simps) simp
  qed
qed

lemma commas_set: "set (commas ds) \<subseteq> insert (CHR '','') (set ds)"
  by (induction ds rule: commas.induct) auto

lemma minus_not_digit: "CHR ''-'' \<notin> set (digits n)"
  using digits_set[of n] by auto

lemma toLocaleString_abs: "CHR ''-'' \<notin> set (toLocaleString \<bar>x\<bar>)"
proof -
  have "set (commas (rev (digits (nat \<bar>x\<bar>)))) \<subseteq> insert (CHR '','') (set (digits (nat \<bar>x\<bar>)))"
    using commas_set[of "rev (digits (nat \<bar>x\<bar>))"] by simp
  then show ?thesis using minus_not_digit[of "nat \<bar>x\<bar>"]
    by (auto simp add: toLocaleString_def)
qed

lemma String_of_int_abs: "CHR ''-'' \<notin> set (String_of_int \<bar>x\<bar>)"
  using minus_not_digit[of "nat \<bar>x\<bar>"] by (simp add: String_of_int_def)

lemma initializeChart_valid:
  assumes "0 \<le> i" "i < int (length (allYearsData st))"
  shows "initializeChart st (Num i) =
     (st\<lparr> currentYearDisplay := ''Year: '' @ String_of_int (year (allYearsData st ! nat i)),
          dataSourceInfo := ''Data for '' @ [CHR 0x22] @ country (allYearsData st ! nat i) @ [CHR 0x22],
          yearSlider_value := Num i,
          liveCharts := (case pyramidChart st of None \<Rightarrow> liveCharts st
                         | Some c \<Rightarrow> removeAll (chartId c) (liveCharts st)) @ [nextChartId st],
          nextChartId := Suc (nextChartId st),
          pyramidChart := Some (chart_of (nextChartId st) (allYearsData st ! nat i)) \<rparr>, None)"
  using assms
  by (auto simp add: initializeChart_def destroy_def new_Chart_def chart_of_def Let_def
      split: option.splits)

lemma initializeChart_invalid:
  assumes "allYearsData st = [] \<or> i < 0 \<or> int (length (allYearsData st)) \<le> i"
  shows "initializeChart st (Num i) =
     ((showMessage st ''No data available to display chart.'' ''error'')
        \<lparr> dataSourceInfo := ''Error: Could not load data.'', currentYearDisplay := ''Year: ---'' \<rparr>,
      None)"
  using assms by (auto simp add: initializeChart_def Let_def)

lemma initializeChart_NaN:
  "initializeChart st NaN =
     (if allYearsData st = [] then
        ((showMessage st ''No data available to display chart.'' ''error'')
          \<lparr> dataSourceInfo := ''Error: Could not load data.'', currentYearDisplay := ''Year: ---'' \<rparr>,
         None)
      else (st, Some (undefined_property ''year'')))"
  by (simp add: initializeChart_def Let_def)


lemma tooltip_label_no_minus:
  assumes "CHR ''-'' \<notin> set l"
  shows "CHR ''-'' \<notin> set (tooltip_label l (Some x))"
  using assms toLocaleString_abs[of x] by (simp add: tooltip_label_def Let_def)

lemma updateChartForAnimation_valid:
  assumes "0 \<le> i" "i < int (length (allYearsData st))" "pyramidChart st = Some c"
  shows "updateChartForAnimation st (Num i) =
     (st\<lparr> currentYearIndex := Num i,
          currentYearDisplay := ''Year: '' @ String_of_int (year (allYearsData st ! nat i)),
          yearSlider_value := Num i,
          pyramidChart := Some
            (c\<lparr> labels := ageGroups (allYearsData st ! nat i),
                dataset0 := (dataset0 c)\<lparr> ds_data := map uminus (male (allYearsData st ! nat i)) \<rparr>,
                dataset1 := (dataset1 c)\<lparr> ds_data := female (allYearsData st ! nat i) \<rparr>,
                updates := Suc (updates c) \<rparr>) \<rparr>, None)"
  using assms by (simp add: updateChartForAnimation_def Let_def)

text \<open>
  C4. For every entry that is rendered, by \<open>initializeChart\<close> or by the in-place update,
  the male dataset of the chart is the entry's male sequence negated element by element and
  the female dataset is the entry's female sequence as it is. The tooltip of a datum is the
  dataset's label followed by the absolute value of the datum, and the tick label of a value
  is its absolute value: neither contains a minus sign.
\<close>

theorem male_negated_shown_absolute:
  assumes "0 \<le> i" "i < int (length (allYearsData st))"
  shows "snd (initializeChart st (Num i)) = None
    \<and> (\<exists>c. pyramidChart (fst (initializeChart st (Num i))) = Some c
          \<and> labels c = ageGroups (allYearsData st ! nat i)
          \<and> ds_data (dataset0 c) = map uminus (male (allYearsData st ! nat i))
          \<and> ds_data (dataset1 c) = female (allYearsData st ! nat i)
          \<and> (\<forall>x \<in> set (ds_data (dataset0 c)).
                 tooltip_label (ds_label (dataset0 c)) (Some x) = ''Male: '' @ toLocaleString \<bar>x\<bar>
               \<and> CHR ''-'' \<notin> set (tooltip_label (ds_label (dataset0 c)) (Some x)))
          \<and> (\<forall>x \<in> set (ds_data (dataset1 c)).
                 tooltip_label (ds_label (dataset1 c)) (Some x) = ''Female: '' @ toLocaleString \<bar>x\<bar>
               \<and> CHR ''-'' \<notin> set (tooltip_label (ds_label (dataset1 c)) (Some x))))
    \<and> (\<forall>c0. pyramidChart st = Some c0 \<longrightarrow>
          (\<exists>c. pyramidChart (fst (updateChartForAnimation st (Num i))) = Some c
             \<and> ds_data (dataset0 c) = map uminus (male (allYearsData st ! nat i))
             \<and> ds_data (dataset1 c) = female (allYearsData st ! nat i)
             \<and> ds_label (dataset0 c) = ds_label (dataset0 c0)
             \<and> ds_label (dataset1 c) = ds_label (dataset1 c0)))
    \<and> (\<forall>v. ticks_callback v = \<bar>v\<bar> \<and> CHR ''-'' \<notin> set (String_of_int (ticks_callback v)))"
proof -
  let ?d = "allYearsData st ! nat i"
  let ?c = "chart_of (nextChartId st) ?d"
  have r: "snd (initializeChart st (Num i)) = None"
    and c: "pyramidChart (fst (initializeChart st (Num i))) = Some ?c"
    by (simp_all add: initializeChart_valid[OF assms])
  have l: "labels ?c = ageGroups ?d" "ds_data (dataset0 ?c) = map uminus (male ?d)"
    "ds_data (dataset1 ?c) = female ?d" "ds_label (dataset0 ?c) = ''Male''"
    "ds_label (dataset1 ?c) = ''Female''"
    by (simp_all add: chart_of_def)
  have m: "tooltip_label ''Male'' (Some x) = ''Male: '' @ toLocaleString \<bar>x\<bar>
           \<and> CHR ''-'' \<notin> set (tooltip_label ''Male'' (Some x))" for x
    using tooltip_label_no_minus[of "''Male''" x] by (simp add: tooltip_label_def)
  have f: "tooltip_label ''Female'' (Some x) = ''Female: '' @ toLocaleString \<bar>x\<bar>
           \<and> CHR ''-'' \<notin> set (tooltip_label ''Female'' (Some x))" for x
    using tooltip_label_no_minus[of "''Female''" x] by (simp add: tooltip_label_def)
  have init: "\<exists>c. pyramidChart (fst (initializeChart st (Num i))) = Some c
          \<and> labels c = ageGroups ?d
          \<and> ds_data (dataset0 c) = map uminus (male ?d)
          \<and> ds_data (dataset1 c) = female ?d
          \<and> (\<forall>x \<in> set (ds_data (dataset0 c)).
                 tooltip_label (ds_label (dataset0 c)) (Some x) = ''Male: '' @ toLocaleString \<bar>x\<bar>
               \<and> CHR ''-'' \<notin> set (tooltip_label (ds_label (dataset0 c)) (Some x)))
          \<and> (\<forall>x \<in> set (ds_data (dataset1 c)).
                 tooltip_label (ds_label (dataset1 c)) (Some x) = ''Female: '' @ toLocaleString \<bar>x\<bar>
               \<and> CHR ''-'' \<notin> set (tooltip_label (ds_label (dataset1 c)) (Some x)))"
    using c l m f by (simp add: toLocaleString_abs)
  have upd: "\<exists>c. pyramidChart (fst (updateChartForAnimation st (Num i))) = Some c
             \<and> ds_data (dataset0 c) = map uminus (male ?d)
             \<and> ds_data (dataset1 c) = female ?d
             \<and> ds_label (dataset0 c) = ds_label (dataset0 c0)
             \<and> ds_label (dataset1 c) = ds_label (dataset1 c0)"
    if "pyramidChart st = Some c0" for c0
    by (simp add: updateChartForAnimation_valid[OF assms that])
  have t: "ticks_callback v = \<bar>v\<bar> \<and> CHR ''-'' \<notin> set (String_of_int (ticks_callback v))" for v
    using String_of_int_abs[of v] by (simp add: ticks_callback_def)
  from r init upd t show ?thesis by blast
qed


theorem male_negated_shown_absolute_witness:
  "snd (initializeChart example_state (Num 1)) = None
   \<and> pyramidChart (fst (initializeChart example_state (Num 1)))
       = Some \<lparr> chartId = 1, labels = [''5-9'', ''0-4''],
                dataset0 = \<lparr> ds_label = ''Male'', ds_data = [- 110, - 100] \<rparr>,
                dataset1 = \<lparr> ds_label = ''Female'', ds_data = [105, 95] \<rparr>, updates = 0 \<rparr>
   \<and> tooltip_label ''Male'' (Some (- 110)) = ''Male: 110''
   \<and> ticks_callback (- 100) = 100"
  using male_negated_shown_absolute [of 1 example_state]
  by (simp add: example_state_def example_series_def initial_state_def initializeChart_valid
      chart_of_def tooltip_label_def toLocaleString_def digits.simps digit_char_def
      ticks_callback_def)


lemma initializeChart_chart_inv:
  assumes "chart_inv st"
  shows "chart_inv (fst (initializeChart st idx))"
proof (cases idx)
  case NaN
  with assms show ?thesis by (simp add: initializeChart_NaN chart_inv_def split: option.splits)
next
  case (Num i)
  show ?thesis
  proof (cases "allYearsData st = [] \<or> i < 0 \<or> int (length (allYearsData st)) \<le> i")
    case True
    with assms Num show ?thesis
      by (simp add: initializeChart_invalid chart_inv_def split: option.splits)
  next
    case False
    then have v: "0 \<le> i" "i < int (length (allYearsData st))" by auto
    from assms show ?thesis
      by (simp add: Num initializeChart_valid[OF v] chart_inv_def chart_of_def split: option.splits)
  qed
qed

lemma chart_inv_at_most_one: "chart_inv st \<Longrightarrow> length (liveCharts st) \<le> 1"
  by (simp add: chart_inv_def split: option.splits)

lemma initializeChart_keeps_data:
  "allYearsData (fst (initializeChart st idx)) = allYearsData st"
proof (cases idx)
  case NaN
  then show ?thesis by (simp add: initializeChart_NaN)
next
  case (Num i)
  show ?thesis
  proof (cases "allYearsData st = [] \<or> i < 0 \<or> int (length (allYearsData st)) \<le> i")
    case True
    then show ?thesis unfolding Num by (subst initializeChart_invalid) simp_all
  next
    case False
    then have v: "0 \<le> i" "i < int (length (allYearsData st))" by auto
    show ?thesis unfolding Num by (subst initializeChart_valid[OF v]) simp
  qed
qed

lemma initializeChart_twice:
  "map_option (\<lambda>c. c\<lparr>chartId := 0\<rparr>) (pyramidChart (fst (initializeChart (fst (initializeChart st idx)) idx)))
     = map_option (\<lambda>c. c\<lparr>chartId := 0\<rparr>) (pyramidChart (fst (initializeChart st idx)))
   \<and> currentYearDisplay (fst (initializeChart (fst (initializeChart st idx)) idx))
     = currentYearDisplay (fst (initializeChart st idx))
   \<and> dataSourceInfo (fst (initializeChart (fst (initializeChart st idx)) idx))
     = dataSourceInfo (fst (initializeChart st idx))
   \<and> yearSlider_value (fst (initializeChart (fst (initializeChart st idx)) idx))
     = yearSlider_value (fst (initializeChart st idx))"
proof -
  define s1 where "s1 = fst (initializeChart st idx)"
  have a: "allYearsData s1 = allYearsData st"
    unfolding s1_def by (rule initializeChart_keeps_data)
  have "map_option (\<lambda>c. c\<lparr>chartId := 0\<rparr>) (pyramidChart (fst (initializeChart s1 idx)))
     = map_option (\<lambda>c. c\<lparr>chartId := 0\<rparr>) (pyramidChart s1)
   \<and> currentYearDisplay (fst (initializeChart s1 idx)) = currentYearDisplay s1
   \<and> dataSourceInfo (fst (initializeChart s1 idx)) = dataSourceInfo s1
   \<and> yearSlider_value (fst (initializeChart s1 idx)) = yearSlider_value s1"
  proof (cases idx)
    case NaN
    have e1: "s1 = (if allYearsData st = [] then
        (showMessage st ''No data available to display chart.'' ''error'')
          \<lparr> dataSourceInfo := ''Error: Could not load data.'', currentYearDisplay := ''Year: ---'' \<rparr>
        else st)"
      unfolding s1_def NaN by (simp add: initializeChart_NaN)
    show ?thesis unfolding NaN
      by (cases "allYearsData st = []") (simp_all add: initializeChart_NaN a e1)
  next
    case (Num i)
    show ?thesis
    proof (cases "allYearsData st = [] \<or> i < 0 \<or> int (length (allYearsData st)) \<le> i")
      case True
      then have inv1: "allYearsData s1 = [] \<or> i < 0 \<or> int (length (allYearsData s1)) \<le> i"
        using a by simp
      have e1: "s1 = (showMessage st ''No data available to display chart.'' ''error'')
        \<lparr> dataSourceInfo := ''Error: Could not load data.'', currentYearDisplay := ''Year: ---'' \<rparr>"
        unfolding s1_def Num by (subst initializeChart_invalid[OF True]) simp
      show ?thesis unfolding Num
        by (subst (1 2 3 4) initializeChart_invalid[OF inv1]) (simp add: e1)
    next
      case False
      then have v: "0 \<le> i" "i < int (length (allYearsData st))" by auto
      have v1: "0 \<le> i" "i < int (length (allYearsData s1))" using v a by simp_all
      have e1: "pyramidChart s1 = Some (chart_of (nextChartId st) (allYearsData st ! nat i))"
        "currentYearDisplay s1 = ''Year: '' @ String_of_int (year (allYearsData st ! nat i))"
        "dataSourceInfo s1 = ''Data for '' @ [CHR 0x22] @ country (allYearsData st ! nat i) @ [CHR 0x22]"
        "yearSlider_value s1 = Num i"
        unfolding s1_def Num by (simp_all add: initializeChart_valid[OF v])
      show ?thesis unfolding Num
        by (subst (1 2 3 4) initializeChart_valid[OF v1]) (simp add: e1 a chart_of_def)
    qed
  qed
  then show ?thesis unfolding s1_def .
qed


lemma initializeChart_disposes:
  assumes "chart_inv st" "pyramidChart st = Some c0"
  shows "pyramidChart (fst (initializeChart st idx)) = Some c0
         \<or> chartId c0 \<notin> set (liveCharts (fst (initializeChart st idx)))"
proof (cases idx)
  case NaN
  with assms show ?thesis by (simp add: initializeChart_NaN)
next
  case (Num i)
  show ?thesis
  proof (cases "allYearsData st = [] \<or> i < 0 \<or> int (length (allYearsData st)) \<le> i")
    case True
    with assms Num show ?thesis by (simp add: initializeChart_invalid)
  next
    case False
    then have v: "0 \<le> i" "i < int (length (allYearsData st))" by auto
    from assms show ?thesis
      by (simp add: Num initializeChart_valid[OF v] chart_inv_def)
  qed
qed

text \<open>
  C5. Where the script's chart is the only live instance, it is so again after
  \<open>initializeChart\<close>, called once or twice: at most one instance is live, the instance held
  before is either still the script's chart (nothing was drawn) or destroyed, and the second
  call leaves a chart with the same labels, datasets and update count as the first, and the
  same year, source and slider display. Only the identity of the instance differs.
\<close>

theorem initializeChart_idempotent:
  assumes "chart_inv st"
  shows "chart_inv (fst (initializeChart st idx))
    \<and> chart_inv (fst (initializeChart (fst (initializeChart st idx)) idx))
    \<and> length (liveCharts (fst (initializeChart st idx))) \<le> 1
    \<and> length (liveCharts (fst (initializeChart (fst (initializeChart st idx)) idx))) \<le> 1
    \<and> (\<forall>c0. pyramidChart st = Some c0 \<longrightarrow>
          pyramidChart (fst (initializeChart st idx)) = Some c0
          \<or> chartId c0 \<notin> set (liveCharts (fst (initializeChart st idx))))
    \<and> map_option (\<lambda>c. c\<lparr>chartId := 0\<rparr>)
          (pyramidChart (fst (initializeChart (fst (initializeChart st idx)) idx)))
        = map_option (\<lambda>c. c\<lparr>chartId := 0\<rparr>) (pyramidChart (fst (initializeChart st idx)))
    \<and> currentYearDisplay (fst (initializeChart (fst (initializeChart st idx)) idx))
        = currentYearDisplay (fst (initializeChart st idx))
    \<and> dataSourceInfo (fst (initializeChart (fst (initializeChart st idx)) idx))
        = dataSourceInfo (fst (initializeChart st idx))
    \<and> yearSlider_value (fst (initializeChart (fst (initializeChart st idx)) idx))
        = yearSlider_value (fst (initializeChart st idx))"
proof -
  have i1: "chart_inv (fst (initializeChart st idx))"
    using assms by (rule initializeChart_chart_inv)
  have i2: "chart_inv (fst (initializeChart (fst (initializeChart st idx)) idx))"
    using i1 by (rule initializeChart_chart_inv)
  note l1 = chart_inv_at_most_one[OF i1] and l2 = chart_inv_at_most_one[OF i2]
  have d: "pyramidChart (fst (initializeChart st idx)) = Some c0
          \<or> chartId c0 \<notin> set (liveCharts (fst (initializeChart st idx)))"
    if "pyramidChart st = Some c0" for c0
    using assms that by (rule initializeChart_disposes)
  from i1 i2 l1 l2 d initializeChart_twice[of st idx] show ?thesis by blast
qed

theorem initializeChart_idempotent_witness:
  "chart_inv example_state
   \<and> pyramidChart (fst (initializeChart example_state (Num 1)))
       = Some (chart_of 1 (example_series ! 1))
   \<and> liveCharts (fst (initializeChart example_state (Num 1))) = [1]
   \<and> pyramidChart (fst (initializeChart (fst (initializeChart example_state (Num 1))) (Num 1)))
       = Some (chart_of 2 (example_series ! 1))
   \<and> liveCharts (fst (initializeChart (fst (initializeChart example_state (Num 1))) (Num 1))) = [2]"
proof -
  let ?s1 = "example_state\<lparr> currentYearDisplay := ''Year: 2025'',
          dataSourceInfo := ''Data for '' @ [CHR 0x22] @ ''Algeria'' @ [CHR 0x22],
          yearSlider_value := Num 1, liveCharts := [1], nextChartId := 2,
          pyramidChart := Some (chart_of 1 (example_series ! 1)) \<rparr>"
  let ?s2 = "example_state\<lparr> currentYearDisplay := ''Year: 2025'',
          dataSourceInfo := ''Data for '' @ [CHR 0x22] @ ''Algeria'' @ [CHR 0x22],
          yearSlider_value := Num 1, liveCharts := [2], nextChartId := 3,
          pyramidChart := Some (chart_of 2 (example_series ! 1)) \<rparr>"
  have h: "chart_inv example_state"
    by (simp add: chart_inv_def example_state_def chart_of_def)
  have v: "(0::int) \<le> 1" "1 < int (length (allYearsData example_state))"
    by (simp_all add: example_state_def example_series_def)
  have e: "initializeChart example_state (Num 1) = (?s1, None)"
    by (subst initializeChart_valid[OF v])
       (simp add: example_state_def example_series_def chart_of_def String_of_int_def
          digits.simps digit_char_def)
  have v1: "(0::int) \<le> 1" "1 < int (length (allYearsData ?s1))"
    by (simp_all add: example_state_def example_series_def)
  have e2: "initializeChart ?s1 (Num 1) = (?s2, None)"
    by (subst initializeChart_valid[OF v1])
       (simp add: example_state_def example_series_def chart_of_def String_of_int_def
          digits.simps digit_char_def)
  note t = initializeChart_idempotent[OF h, of "Num 1", unfolded e fst_conv e2]
  from t h show ?thesis unfolding e fst_conv e2 by simp
qed

section \<open>Stopping and scrubbing\<close>

lemma stopAnimation_stopped: "\<not> isPlaying st \<Longrightarrow> stopAnimation st = st"
  by (simp add: stopAnimation_def)

lemma tick_timers_clear:
  "tick_timers (clear_timer h st) = filter (\<lambda>i. Some i \<noteq> h) (tick_timers st)"
  by (cases h) (simp_all add: clear_timer_def tick_timers_def filter_map o_def conj_commute)

lemma clear_timer_frame [simp]:
  "isPlaying (clear_timer h st) = isPlaying st"
  "animationInterval (clear_timer h st) = animationInterval st"
  "pyramidChart (clear_timer h st) = pyramidChart st"
  "liveCharts (clear_timer h st) = liveCharts st"
  "nextChartId (clear_timer h st) = nextChartId st"
  "allYearsData (clear_timer h st) = allYearsData st"
  "currentYearIndex (clear_timer h st) = currentYearIndex st"
  "shown (clear_timer h st) = shown st"
  "fetched (clear_timer h st) = fetched st"
  by (cases h; simp add: clear_timer_def)+

lemma stopAnimation_frame [simp]:
  "isPlaying (stopAnimation st) = False"
  "animationInterval (stopAnimation st) = animationInterval st"
  "pyramidChart (stopAnimation st) = pyramidChart st"
  "liveCharts (stopAnimation st) = liveCharts st"
  "nextChartId (stopAnimation st) = nextChartId st"
  "allYearsData (stopAnimation st) = allYearsData st"
  "currentYearIndex (stopAnimation st) = currentYearIndex st"
  "fetched (stopAnimation st) = fetched st"
  by (simp_all add: stopAnimation_def Let_def)

lemma stopAnimation_tick_timers:
  "tick_timers (stopAnimation st) =
     (if isPlaying st then filter (\<lambda>i. Some i \<noteq> animationInterval st) (tick_timers st)
      else tick_timers st)"
proof (cases "animationInterval st")
  case None
  then show ?thesis
    by (simp add: stopAnimation_def Let_def tick_timers_def clear_timer_def)
next
  case (Some h)
  then show ?thesis
    by (simp add: stopAnimation_def Let_def tick_timers_def clear_timer_def filter_map o_def
        conj_commute)
qed

lemma stopAnimation_cancels:
  assumes "isPlaying st" "animationInterval st = Some h"
  shows "map_of (timers (stopAnimation st)) h \<noteq> Some AnimationTick"
proof
  assume "map_of (timers (stopAnimation st)) h = Some AnimationTick"
  then have "(h, AnimationTick) \<in> set (timers (stopAnimation st))" by (rule map_of_SomeD)
  with assms show False
    by (simp add: stopAnimation_def Let_def clear_timer_def)
qed

lemma no_tick_timers: "tick_timers st = [] \<longleftrightarrow> (\<forall>i. (i, AnimationTick) \<notin> set (timers st))"
  by (auto simp add: tick_timers_def filter_empty_conv)

lemma stopAnimation_quiet:
  assumes "timer_inv st"
  shows "tick_timers (stopAnimation st) = []"
proof (cases "isPlaying st")
  case False
  with assms show ?thesis by (simp add: stopAnimation_stopped timer_inv_def)
next
  case True
  with assms have "set (tick_timers st) \<subseteq> set_option (animationInterval st)"
    by (simp add: timer_inv_def)
  then have "filter (\<lambda>i. Some i \<noteq> animationInterval st) (tick_timers st) = []"
    by (auto simp add: filter_empty_conv)
  with True show ?thesis by (simp add: stopAnimation_tick_timers)
qed

lemma updateChartForAnimation_tick_timers:
  "tick_timers (fst (updateChartForAnimation st i)) = tick_timers st"
  by (simp add: tick_timers_def updateChartForAnimation_keeps)

lemma yearSlider_input_cases:
  "yearSlider_input st v =
     (if js_strict_eq (parseInt10 v) (currentYearIndex st) then (stopAnimation st, None)
      else updateChartForAnimation (stopAnimation st) (parseInt10 v))"
  by (simp add: yearSlider_input_def Let_def)

text \<open>
  C6. The slider's listener first calls \<open>stopAnimation\<close>, which leaves the controller
  stopped with the pending animation timer cancelled and changes neither the index nor the
  chart; only then, and only if the requested index is not the current one, does it call
  \<open>updateChartForAnimation\<close> with the requested index, on the stopped state. A requested
  index equal to the current one changes neither index nor chart; a different index inside
  the series becomes the current one.
\<close>

theorem scrub_stops_first:
  "\<not> isPlaying (stopAnimation st)
   \<and> currentYearIndex (stopAnimation st) = currentYearIndex st
   \<and> pyramidChart (stopAnimation st) = pyramidChart st
   \<and> (\<forall>h. isPlaying st \<and> animationInterval st = Some h
          \<longrightarrow> map_of (timers (stopAnimation st)) h \<noteq> Some AnimationTick)
   \<and> yearSlider_input st v =
       (if js_strict_eq (parseInt10 v) (currentYearIndex st) then (stopAnimation st, None)
        else updateChartForAnimation (stopAnimation st) (parseInt10 v))
   \<and> \<not> isPlaying (fst (yearSlider_input st v))
   \<and> (js_strict_eq (parseInt10 v) (currentYearIndex st)
        \<longrightarrow> currentYearIndex (fst (yearSlider_input st v)) = currentYearIndex st
          \<and> pyramidChart (fst (yearSlider_input st v)) = pyramidChart st)
   \<and> (\<forall>i. parseInt10 v = Num i \<and> currentYearIndex st \<noteq> Num i
            \<and> 0 \<le> i \<and> i < int (length (allYearsData st))
        \<longrightarrow> currentYearIndex (fst (yearSlider_input st v)) = Num i)"
proof -
  have j: "currentYearIndex (fst (yearSlider_input st v)) = Num i"
    if "parseInt10 v = Num i \<and> currentYearIndex st \<noteq> Num i
            \<and> 0 \<le> i \<and> i < int (length (allYearsData st))" for i
  proof -
    from that have "\<not> js_strict_eq (parseInt10 v) (currentYearIndex st)"
      by (cases "currentYearIndex st") auto
    with that show ?thesis
      by (simp add: yearSlider_input_cases updateChartForAnimation_index)
  qed
  have c: "map_of (timers (stopAnimation st)) h \<noteq> Some AnimationTick"
    if "isPlaying st \<and> animationInterval st = Some h" for h
    using that stopAnimation_cancels[of st h] by simp
  have p: "\<not> isPlaying (fst (yearSlider_input st v))"
    by (simp add: yearSlider_input_cases updateChartForAnimation_keeps)
  have s: "currentYearIndex (fst (yearSlider_input st v)) = currentYearIndex st
          \<and> pyramidChart (fst (yearSlider_input st v)) = pyramidChart st"
    if "js_strict_eq (parseInt10 v) (currentYearIndex st)"
    using that by (simp add: yearSlider_input_cases)
  from c p s j yearSlider_input_cases[of st v] show ?thesis by simp
qed


section \<open>Invariants of the page\<close>

lemma timer_inv_cong:
  assumes "isPlaying s' = isPlaying s" "animationInterval s' = animationInterval s"
    "tick_timers s' = tick_timers s"
  shows "timer_inv s' = timer_inv s"
  using assms by (simp add: timer_inv_def)

lemma chart_inv_cong:
  assumes "pyramidChart s' = pyramidChart s" "liveCharts s' = liveCharts s"
    "nextChartId s' = nextChartId s"
  shows "chart_inv s' = chart_inv s"
  using assms by (simp add: chart_inv_def split: option.splits)

lemma showMessage_inv [simp]:
  "timer_inv (showMessage st m t) = timer_inv st"
  "chart_inv (showMessage st m t) = chart_inv st"
  by (rule timer_inv_cong; simp) (rule chart_inv_cong; simp)

lemma showLoading_inv [simp]:
  "timer_inv (showLoading st b) = timer_inv st"
  "chart_inv (showLoading st b) = chart_inv st"
  by (rule timer_inv_cong; simp) (rule chart_inv_cong; simp)

lemma loadAndDisplayChart_catch_frame [simp]:
  "isPlaying (loadAndDisplayChart_catch st err) = isPlaying st"
  "animationInterval (loadAndDisplayChart_catch st err) = animationInterval st"
  "tick_timers (loadAndDisplayChart_catch st err) = tick_timers st"
  "pyramidChart (loadAndDisplayChart_catch st err) = pyramidChart st"
  "liveCharts (loadAndDisplayChart_catch st err) = liveCharts st"
  "nextChartId (loadAndDisplayChart_catch st err) = nextChartId st"
  "fetched (loadAndDisplayChart_catch st err) = fetched st"
  "shown (loadAndDisplayChart_catch st err) = (''Error: '' @ message err, ''error'') # shown st"
  by (simp_all add: loadAndDisplayChart_catch_def Let_def tick_timers_def)

lemma select_year_frame [simp]:
  "isPlaying (select_year st) = isPlaying st"
  "animationInterval (select_year st) = animationInterval st"
  "tick_timers (select_year st) = tick_timers st"
  "pyramidChart (select_year st) = pyramidChart st"
  "liveCharts (select_year st) = liveCharts st"
  "nextChartId (select_year st) = nextChartId st"
  "fetched (select_year st) = fetched st"
  "allYearsData (select_year st) = allYearsData st"
  by (simp_all add: select_year_def Let_def tick_timers_def)

lemma setupControls_frame [simp]:
  "isPlaying (setupControls st) = isPlaying st"
  "animationInterval (setupControls st) = animationInterval st"
  "tick_timers (setupControls st) = tick_timers st"
  "pyramidChart (setupControls st) = pyramidChart st"
  "liveCharts (setupControls st) = liveCharts st"
  "nextChartId (setupControls st) = nextChartId st"
  "fetched (setupControls st) = fetched st"
  "shown (setupControls st) = shown st"
  "allYearsData (setupControls st) = allYearsData st"
  "currentYearIndex (setupControls st) = currentYearIndex st"
  by (simp_all add: setupControls_def Let_def tick_timers_def)

lemma initializeChart_frame:
  "isPlaying (fst (initializeChart st idx)) = isPlaying st"
  "animationInterval (fst (initializeChart st idx)) = animationInterval st"
  "tick_timers (fst (initializeChart st idx)) = tick_timers st"
  "fetched (fst (initializeChart st idx)) = fetched st"
  "currentYearIndex (fst (initializeChart st idx)) = currentYearIndex st"
  by (simp_all add: initializeChart_def Let_def tick_timers_def destroy_def new_Chart_def
      split: option.splits)


lemma timers_only_frame [simp]:
  "tick_timers (st\<lparr> fetched := f \<rparr>) = tick_timers st"
  "tick_timers (st\<lparr> heap := h \<rparr>) = tick_timers st"
  "tick_timers (st\<lparr> allYearsData := ys \<rparr>) = tick_timers st"
  by (simp_all add: tick_timers_def)

lemma initializeChart_result:
  assumes "initializeChart st idx = (st', r)"
  shows "isPlaying st' = isPlaying st \<and> animationInterval st' = animationInterval st
    \<and> tick_timers st' = tick_timers st \<and> fetched st' = fetched st
    \<and> currentYearIndex st' = currentYearIndex st
    \<and> allYearsData st' = allYearsData st
    \<and> (chart_inv st \<longrightarrow> chart_inv st')"
  using initializeChart_frame[of st idx] initializeChart_chart_inv[of st idx]
    initializeChart_keeps_data[of st idx] assms
  by simp

lemma json_processRawData:
  "(case json_alloc h doc of (h1, rawData) \<Rightarrow> processRawData h1 rawData)
     = (h @ [doc_data doc, rev (doc_data doc)], Inr [entry_of doc])"
  by (simp add: json_alloc_def processRawData_eq entry_of_def nth_append)

lemma loadAndDisplayChart_parsed_eq:
  "loadAndDisplayChart_parsed st1 doc =
     (let st3 = select_year (st1\<lparr> heap := heap st1 @ [doc_data doc, rev (doc_data doc)],
                                   allYearsData := [entry_of doc] \<rparr>)
      in case initializeChart st3 (currentYearIndex st3) of
           (st4, Some err) \<Rightarrow> loadAndDisplayChart_catch st4 err
         | (st4, None) \<Rightarrow> showLoading (setupControls st4) False)"
  by (simp add: loadAndDisplayChart_parsed_def json_alloc_def processRawData_eq entry_of_def
      nth_append Let_def)

lemma loadAndDisplayChart_parsed_frame:
  "isPlaying (loadAndDisplayChart_parsed st doc) = isPlaying st"
  "animationInterval (loadAndDisplayChart_parsed st doc) = animationInterval st"
  "tick_timers (loadAndDisplayChart_parsed st doc) = tick_timers st"
  "fetched (loadAndDisplayChart_parsed st doc) = fetched st"
  by (auto simp add: loadAndDisplayChart_parsed_eq Let_def
      split: prod.splits option.splits dest!: initializeChart_result)


lemma loadAndDisplayChart_frame:
  "isPlaying (loadAndDisplayChart e st arg) = isPlaying st"
  "animationInterval (loadAndDisplayChart e st arg) = animationInterval st"
  "tick_timers (loadAndDisplayChart e st arg) = tick_timers st"
  "fetched (loadAndDisplayChart e st arg) = fetched st @ [jsonFilePath (countryName arg)]"
  by (simp_all add: loadAndDisplayChart_def Let_def loadAndDisplayChart_parsed_frame
      split: fetch_result.splits sum.splits)

lemma loadAndDisplayChart_parsed_chart_inv:
  assumes "chart_inv st"
  shows "chart_inv (loadAndDisplayChart_parsed st doc)"
proof -
  let ?st3 = "select_year (st\<lparr> heap := heap st @ [doc_data doc, rev (doc_data doc)],
                                   allYearsData := [entry_of doc] \<rparr>)"
  have c3: "chart_inv ?st3" using assms by (simp add: chart_inv_def split: option.splits)
  obtain st4 r where i: "initializeChart ?st3 (currentYearIndex ?st3) = (st4, r)"
    by (cases "initializeChart ?st3 (currentYearIndex ?st3)")
  with c3 have c4: "chart_inv st4" using initializeChart_result[OF i] by simp
  have "chart_inv (loadAndDisplayChart_catch st4 err)" for err
    using c4 by (simp add: chart_inv_def split: option.splits)
  moreover have "chart_inv (showLoading (setupControls st4) False)"
    using c4 by (simp add: chart_inv_def split: option.splits)
  ultimately show ?thesis
    by (simp add: loadAndDisplayChart_parsed_eq Let_def i split: option.splits)
qed

lemma loadAndDisplayChart_chart_inv:
  assumes "chart_inv st"
  shows "chart_inv (loadAndDisplayChart e st arg)"
proof -
  let ?st1 = "(showLoading st True)\<lparr> fetched := fetched (showLoading st True) @ [jsonFilePath (countryName arg)] \<rparr>"
  have c1: "chart_inv ?st1" using assms by (simp add: chart_inv_def split: option.splits)
  have "chart_inv (loadAndDisplayChart_catch ?st1 err)" for err
    using c1 by (simp add: chart_inv_def split: option.splits)
  with loadAndDisplayChart_parsed_chart_inv[OF c1] show ?thesis
    by (simp add: loadAndDisplayChart_def Let_def split: fetch_result.splits sum.splits)
qed

lemma loadAndDisplayChart_timer_inv:
  "timer_inv (loadAndDisplayChart e st arg) = timer_inv st"
  by (rule timer_inv_cong) (simp_all add: loadAndDisplayChart_frame)


lemma funpow_invariant:
  assumes "\<And>s. P s \<Longrightarrow> P (f s)" "P s"
  shows "P ((f ^^ n) s)"
  using assms by (induction n) simp_all

lemma startAnimation_timer_inv:
  assumes "timer_inv st"
  shows "timer_inv (startAnimation st)"
proof (cases "isPlaying st \<or> length (allYearsData st) \<le> 1")
  case True
  with assms show ?thesis by (simp add: startAnimation_def)
next
  case False
  with assms have "tick_timers st = []" by (simp add: timer_inv_def)
  then have "filter (\<lambda>t. snd t = AnimationTick) (timers st) = []"
    by (simp add: tick_timers_def)
  with False show ?thesis
    by (simp add: startAnimation_def Let_def set_timer_def timer_inv_def showMessage_def
        tick_timers_def)
qed

lemma startAnimation_chart [simp]:
  "pyramidChart (startAnimation st) = pyramidChart st"
  "liveCharts (startAnimation st) = liveCharts st"
  "nextChartId (startAnimation st) = nextChartId st"
  "allYearsData (startAnimation st) = allYearsData st"
  "currentYearIndex (startAnimation st) = currentYearIndex st"
  by (simp_all add: startAnimation_def Let_def set_timer_def)

lemma stopAnimation_timer_inv:
  assumes "timer_inv st"
  shows "timer_inv (stopAnimation st)"
  using stopAnimation_quiet[OF assms] by (simp add: timer_inv_def)

lemma updateChartForAnimation_timer_inv:
  "timer_inv (fst (updateChartForAnimation st i)) = timer_inv st"
  by (rule timer_inv_cong)
     (simp_all add: updateChartForAnimation_keeps updateChartForAnimation_tick_timers)

lemma updateChartForAnimation_chart_inv:
  assumes "chart_inv st"
  shows "chart_inv (fst (updateChartForAnimation st i))"
  using assms
  by (auto simp add: updateChartForAnimation_def Let_def chart_inv_def split: option.splits)

lemma tick_invs:
  "timer_inv (fst (tick st)) = timer_inv st"
  "chart_inv st \<Longrightarrow> chart_inv (fst (tick st))"
proof -
  let ?st1 = "st\<lparr> currentYearIndex := js_rem (js_add (currentYearIndex st) (Num 1))
                            (Num (int (length (allYearsData st)))) \<rparr>"
  have t: "timer_inv ?st1 = timer_inv st" by (rule timer_inv_cong) (simp_all add: tick_timers_def)
  show "timer_inv (fst (tick st)) = timer_inv st"
    by (simp add: tick_def Let_def updateChartForAnimation_timer_inv t)
  have c: "chart_inv ?st1 = chart_inv st" by (rule chart_inv_cong) simp_all
  assume "chart_inv st"
  then have "chart_inv ?st1" by (simp only: c)
  then show "chart_inv (fst (tick st))"
    by (simp add: tick_def Let_def updateChartForAnimation_chart_inv)
qed

lemma clear_timer_timer_inv:
  assumes "timer_inv st"
  shows "timer_inv (clear_timer h st)"
  using assms by (auto simp add: timer_inv_def tick_timers_clear)

lemma timer_fired_invs:
  "timer_inv st \<Longrightarrow> timer_inv (timer_fired st i)"
  "chart_inv st \<Longrightarrow> chart_inv (timer_fired st i)"
proof -
  have m: "timer_inv ((clear_timer h st)\<lparr> messageBox_classes := cs \<rparr>) = timer_inv (clear_timer h st)"
    for h cs
    by (rule timer_inv_cong) (simp_all add: tick_timers_def)
  show "timer_inv st \<Longrightarrow> timer_inv (timer_fired st i)"
    by (simp add: timer_fired_def m clear_timer_timer_inv tick_invs
        split: option.splits timer_kind.splits)
  have c: "chart_inv ((clear_timer h st)\<lparr> messageBox_classes := cs \<rparr>) = chart_inv st"
    "chart_inv (clear_timer h st) = chart_inv st" for h cs
    by (rule chart_inv_cong; simp)+
  show "chart_inv st \<Longrightarrow> chart_inv (timer_fired st i)"
    by (simp add: timer_fired_def c tick_invs split: option.splits timer_kind.splits)
qed

lemma window_resize_invs:
  "timer_inv st \<Longrightarrow> timer_inv (window_resize st)"
  "chart_inv (window_resize st) = chart_inv st"
proof -
  have "timer_inv (window_resize st) = timer_inv (clear_timer (resizeTimeout st) st)"
    by (rule timer_inv_cong) (simp_all add: window_resize_def Let_def set_timer_def tick_timers_def)
  moreover assume "timer_inv st"
  then have "timer_inv (clear_timer (resizeTimeout st) st)" by (rule clear_timer_timer_inv)
  ultimately show "timer_inv (window_resize st)" by simp
next
  show "chart_inv (window_resize st) = chart_inv st"
    by (rule chart_inv_cong) (simp_all add: window_resize_def Let_def set_timer_def)
qed

lemma playPauseButton_click_invs:
  "timer_inv st \<Longrightarrow> timer_inv (playPauseButton_click st)"
  "chart_inv (playPauseButton_click st) = chart_inv st"
proof -
  show "timer_inv st \<Longrightarrow> timer_inv (playPauseButton_click st)"
    by (simp add: playPauseButton_click_def startAnimation_timer_inv stopAnimation_timer_inv)
  show "chart_inv (playPauseButton_click st) = chart_inv st"
    by (rule chart_inv_cong) (simp_all add: playPauseButton_click_def)
qed

lemma yearSlider_input_invs:
  "timer_inv st \<Longrightarrow> timer_inv (fst (yearSlider_input st v))"
  "chart_inv st \<Longrightarrow> chart_inv (fst (yearSlider_input st v))"
proof -
  show "timer_inv st \<Longrightarrow> timer_inv (fst (yearSlider_input st v))"
    by (simp add: yearSlider_input_cases updateChartForAnimation_timer_inv stopAnimation_timer_inv)
  have "chart_inv (stopAnimation st) = chart_inv st" by (rule chart_inv_cong) simp_all
  then show "chart_inv st \<Longrightarrow> chart_inv (fst (yearSlider_input st v))"
    by (simp add: yearSlider_input_cases updateChartForAnimation_chart_inv)
qed

lemma countrySelector_change_invs:
  "timer_inv (countrySelector_change e st c) = timer_inv st"
  "chart_inv st \<Longrightarrow> chart_inv (countrySelector_change e st c)"
proof -
  have t: "timer_inv (st\<lparr> countrySelector_value := a, location_search := b \<rparr>) = timer_inv st"
    "timer_inv (st\<lparr> countrySelector_value := a \<rparr>) = timer_inv st" for a b
    by (rule timer_inv_cong; simp add: tick_timers_def)+
  show "timer_inv (countrySelector_change e st c) = timer_inv st"
    by (simp add: countrySelector_change_def loadAndDisplayChart_timer_inv t)
  have c: "chart_inv (st\<lparr> countrySelector_value := a, location_search := b \<rparr>) = chart_inv st"
    "chart_inv (st\<lparr> countrySelector_value := a \<rparr>) = chart_inv st" for a b
    by (rule chart_inv_cong; simp)+
  show "chart_inv st \<Longrightarrow> chart_inv (countrySelector_change e st c)"
    by (simp add: countrySelector_change_def loadAndDisplayChart_chart_inv c)
qed

lemma handle_event_invs:
  assumes "timer_inv st \<and> chart_inv st"
  shows "timer_inv (handle_event e st ev) \<and> chart_inv (handle_event e st ev)"
proof (cases ev)
  case (TimerFired i)
  with assms show ?thesis by (simp add: handle_event_def timer_fired_invs)
next
  case PlayPauseClick
  have "timer_inv ((playPauseButton_click ^^ n) st) \<and> chart_inv ((playPauseButton_click ^^ n) st)" for n
    by (rule funpow_invariant[where P = "\<lambda>s. timer_inv s \<and> chart_inv s"])
       (simp_all add: playPauseButton_click_invs assms)
  with PlayPauseClick show ?thesis by (simp add: handle_event_def)
next
  case (SliderInput v)
  have "timer_inv (((\<lambda>s. fst (yearSlider_input s v)) ^^ n) st)
        \<and> chart_inv (((\<lambda>s. fst (yearSlider_input s v)) ^^ n) st)" for n
    by (rule funpow_invariant[where P = "\<lambda>s. timer_inv s \<and> chart_inv s"])
       (simp_all add: yearSlider_input_invs assms)
  with SliderInput show ?thesis by (simp add: handle_event_def)
next
  case (CountryChange c)
  with assms show ?thesis by (simp add: handle_event_def countrySelector_change_invs)
next
  case Resize
  with assms show ?thesis by (simp add: handle_event_def window_resize_invs)
qed


lemma run_invs:
  assumes "timer_inv st \<and> chart_inv st"
  shows "timer_inv (run e st evs) \<and> chart_inv (run e st evs)"
  using assms unfolding run_def
proof (induction evs arbitrary: st)
  case Nil
  then show ?case by simp
next
  case (Cons ev evs)
  from Cons.prems have "timer_inv (handle_event e st ev) \<and> chart_inv (handle_event e st ev)"
    by (rule handle_event_invs)
  then show ?case using Cons.IH by simp
qed

lemma initial_state_invs: "timer_inv (initial_state q) \<and> chart_inv (initial_state q)"
  by (simp add: timer_inv_def chart_inv_def tick_timers_def initial_state_def)

lemma loadCountryList_invs:
  assumes "timer_inv st \<and> chart_inv st"
  shows "timer_inv (loadCountryList e st) \<and> chart_inv (loadCountryList e st)"
proof -
  let ?st = "st\<lparr> fetched := fetched st @ [''data/country_list.json''] \<rparr>"
  have t0: "timer_inv ?st" using assms
    by (simp add: timer_inv_cong[of ?st st])
  have c0: "chart_inv ?st" using assms
    by (simp add: chart_inv_cong[of ?st st])
  have catch: "timer_inv (loadCountryList_catch e ?st) \<and> chart_inv (loadCountryList_catch e ?st)"
    using t0 c0
    by (simp add: loadCountryList_catch_def loadAndDisplayChart_timer_inv
        loadAndDisplayChart_chart_inv)
  have main: "timer_inv (loadAndDisplayChart e (select_set_value v
                  (?st\<lparr> countryList := cl, countrySelector_options := os,
                         countrySelector_value := [] \<rparr>)) arg)
            \<and> chart_inv (loadAndDisplayChart e (select_set_value v
                  (?st\<lparr> countryList := cl, countrySelector_options := os,
                         countrySelector_value := [] \<rparr>)) arg)" for v cl os arg
  proof -
    let ?s = "select_set_value v (?st\<lparr> countryList := cl, countrySelector_options := os,
                         countrySelector_value := [] \<rparr>)"
    have "timer_inv ?s = timer_inv st"
      by (rule timer_inv_cong) (simp_all add: select_set_value_def tick_timers_def)
    moreover have "chart_inv ?s = chart_inv st"
      by (rule chart_inv_cong) (simp_all add: select_set_value_def)
    ultimately show ?thesis using assms
      by (simp add: loadAndDisplayChart_timer_inv loadAndDisplayChart_chart_inv)
  qed
  show ?thesis
    using catch main
    by (simp add: loadCountryList_def Let_def split: fetch_result.splits sum.splits)
qed

lemma reachable_invs:
  "timer_inv (run e (window_onload e (initial_state q)) evs)
   \<and> chart_inv (run e (window_onload e (initial_state q)) evs)"
  unfolding window_onload_def
  by (intro run_invs loadCountryList_invs initial_state_invs)

lemma timer_fired_quiet:
  assumes "\<not> isPlaying st \<and> tick_timers st = []"
  shows "\<not> isPlaying (timer_fired st i) \<and> tick_timers (timer_fired st i) = []"
proof -
  from assms have "map_of (timers st) i \<noteq> Some AnimationTick"
    by (auto simp add: no_tick_timers dest: map_of_SomeD)
  moreover have "tick_timers ((clear_timer h st)\<lparr> messageBox_classes := cs \<rparr>)
                  = tick_timers (clear_timer h st)" for h cs
    by (simp add: tick_timers_def)
  ultimately show ?thesis using assms
    by (simp add: timer_fired_def tick_timers_clear split: option.splits timer_kind.splits)
qed

lemma yearSlider_input_quiet:
  assumes "\<not> isPlaying st \<and> tick_timers st = []"
  shows "\<not> isPlaying (fst (yearSlider_input st v)) \<and> tick_timers (fst (yearSlider_input st v)) = []"
  using assms
  by (simp add: yearSlider_input_cases stopAnimation_stopped updateChartForAnimation_keeps
      updateChartForAnimation_tick_timers)

lemma handle_event_quiet:
  assumes "ev \<noteq> PlayPauseClick" "\<not> isPlaying st \<and> tick_timers st = []"
  shows "\<not> isPlaying (handle_event e st ev) \<and> tick_timers (handle_event e st ev) = []"
proof (cases ev)
  case (TimerFired i)
  with assms timer_fired_quiet[of st i] show ?thesis by (simp add: handle_event_def)
next
  case PlayPauseClick
  with assms show ?thesis by simp
next
  case (SliderInput v)
  have "\<not> isPlaying (((\<lambda>s. fst (yearSlider_input s v)) ^^ n) st)
        \<and> tick_timers (((\<lambda>s. fst (yearSlider_input s v)) ^^ n) st) = []" for n
    by (rule funpow_invariant[where P = "\<lambda>s. \<not> isPlaying s \<and> tick_timers s = []"])
       (simp_all add: yearSlider_input_quiet assms)
  with SliderInput show ?thesis by (simp add: handle_event_def)
next
  case (CountryChange c)
  have "tick_timers (st\<lparr> countrySelector_value := a, location_search := b \<rparr>) = tick_timers st"
    "tick_timers (st\<lparr> countrySelector_value := a \<rparr>) = tick_timers st" for a b
    by (simp_all add: tick_timers_def)
  with CountryChange assms show ?thesis
    by (simp add: handle_event_def countrySelector_change_def loadAndDisplayChart_frame)
next
  case Resize
  have "tick_timers (window_resize st) = tick_timers (clear_timer (resizeTimeout st) st)"
    "isPlaying (window_resize st) = isPlaying st"
    by (simp_all add: window_resize_def Let_def set_timer_def tick_timers_def)
  with Resize assms show ?thesis
    by (simp add: handle_event_def tick_timers_clear)
qed

lemma run_quiet:
  assumes "PlayPauseClick \<notin> set evs" "\<not> isPlaying st \<and> tick_timers st = []"
  shows "\<not> isPlaying (run e st evs) \<and> tick_timers (run e st evs) = []"
  using assms unfolding run_def
proof (induction evs arbitrary: st)
  case Nil
  then show ?case by simp
next
  case (Cons ev evs)
  from Cons.prems have "ev \<noteq> PlayPauseClick" by auto
  then have "\<not> isPlaying (handle_event e st ev) \<and> tick_timers (handle_event e st ev) = []"
    using Cons.prems(2) by (rule handle_event_quiet)
  then show ?case using Cons.IH Cons.prems(1) by simp
qed

text \<open>
  C7. \<open>stopAnimation\<close> on a stopped controller changes nothing. On a playing one (whose
  animation timers are the one the script holds) it leaves the controller stopped and no
  animation timer pending, so no timer that fires runs a tick; and this stays so through
  every sequence of events without a click on the play button, the only caller of
  \<open>startAnimation\<close>.
\<close>

theorem stopAnimation_cancels_timer:
  "(\<not> isPlaying st \<longrightarrow> stopAnimation st = st)
   \<and> (timer_inv st \<and> isPlaying st \<longrightarrow>
        \<not> isPlaying (stopAnimation st)
        \<and> tick_timers (stopAnimation st) = []
        \<and> (\<forall>i. map_of (timers (stopAnimation st)) i \<noteq> Some AnimationTick)
        \<and> (\<forall>evs. PlayPauseClick \<notin> set evs \<longrightarrow>
              \<not> isPlaying (run e (stopAnimation st) evs)
              \<and> tick_timers (run e (stopAnimation st) evs) = []))"
proof -
  have q: "\<not> isPlaying (stopAnimation st) \<and> tick_timers (stopAnimation st) = []"
    if "timer_inv st"
    using stopAnimation_quiet[OF that] by simp
  have m: "map_of (timers (stopAnimation st)) i \<noteq> Some AnimationTick" if "timer_inv st" for i
    using q[OF that] by (auto simp add: no_tick_timers dest: map_of_SomeD)
  have r: "\<not> isPlaying (run e (stopAnimation st) evs) \<and> tick_timers (run e (stopAnimation st) evs) = []"
    if "timer_inv st" "PlayPauseClick \<notin> set evs" for evs
    using that(2) q[OF that(1)] by (rule run_quiet)
  from q m r stopAnimation_stopped[of st] show ?thesis by blast
qed


lemma example_playing:
  "isPlaying (startAnimation example_state)"
  "animationInterval (startAnimation example_state) = Some 1"
  "tick_timers (startAnimation example_state) = [1]"
  "timer_inv (startAnimation example_state)"
proof -
  show a: "isPlaying (startAnimation example_state)"
    by (simp add: startAnimation_def Let_def example_state_def example_series_def
        initial_state_def set_timer_def)
  show b: "animationInterval (startAnimation example_state) = Some 1"
    by (simp add: startAnimation_def Let_def example_state_def example_series_def
        initial_state_def set_timer_def)
  show c: "tick_timers (startAnimation example_state) = [1]"
    by (simp add: startAnimation_def Let_def example_state_def example_series_def
        initial_state_def set_timer_def tick_timers_def showMessage_def)
  from a b c show "timer_inv (startAnimation example_state)"
    by (simp add: timer_inv_def)
qed

lemma example_parse: "parseInt10 ''2'' = Num 2" "parseInt10 ''0'' = Num 0"
  by (simp_all add: parseInt10_def is_space_def parse_digits_def is_digit_def digit_val_def)

theorem scrub_stops_first_witness:
  "isPlaying (startAnimation example_state)
   \<and> map_of (timers (stopAnimation (startAnimation example_state))) 1 \<noteq> Some AnimationTick
   \<and> \<not> isPlaying (fst (yearSlider_input (startAnimation example_state) ''2''))
   \<and> currentYearIndex (fst (yearSlider_input (startAnimation example_state) ''2'')) = Num 2
   \<and> currentYearIndex (fst (yearSlider_input (startAnimation example_state) ''0'')) = Num 0
   \<and> pyramidChart (fst (yearSlider_input (startAnimation example_state) ''0''))
       = pyramidChart (startAnimation example_state)"
proof -
  have i: "currentYearIndex (startAnimation example_state) = Num 0"
    "length (allYearsData (startAnimation example_state)) = 3"
    by (simp_all add: example_state_def example_series_def initial_state_def)
  note t2 = scrub_stops_first[of "startAnimation example_state" "''2''"]
  note t0 = scrub_stops_first[of "startAnimation example_state" "''0''"]
  from t2 have a: "map_of (timers (stopAnimation (startAnimation example_state))) 1 \<noteq> Some AnimationTick"
    using example_playing(1,2) by blast
  from t2 have b: "\<not> isPlaying (fst (yearSlider_input (startAnimation example_state) ''2''))"
    by blast
  from t2 have "\<forall>i. parseInt10 ''2'' = Num i \<and> currentYearIndex (startAnimation example_state) \<noteq> Num i
            \<and> 0 \<le> i \<and> i < int (length (allYearsData (startAnimation example_state)))
        \<longrightarrow> currentYearIndex (fst (yearSlider_input (startAnimation example_state) ''2'')) = Num i"
    by blast
  then have c: "currentYearIndex (fst (yearSlider_input (startAnimation example_state) ''2'')) = Num 2"
    using i example_parse by simp
  from t0 have "js_strict_eq (parseInt10 ''0'') (currentYearIndex (startAnimation example_state))
        \<longrightarrow> currentYearIndex (fst (yearSlider_input (startAnimation example_state) ''0''))
              = currentYearIndex (startAnimation example_state)
          \<and> pyramidChart (fst (yearSlider_input (startAnimation example_state) ''0''))
              = pyramidChart (startAnimation example_state)"
    by blast
  then have d: "currentYearIndex (fst (yearSlider_input (startAnimation example_state) ''0'')) = Num 0
     \<and> pyramidChart (fst (yearSlider_input (startAnimation example_state) ''0''))
       = pyramidChart (startAnimation example_state)"
    using i example_parse by simp
  from a b c d example_playing(1) show ?thesis by simp
qed

theorem stopAnimation_cancels_timer_witness:
  "stopAnimation example_state = example_state
   \<and> isPlaying (startAnimation example_state)
   \<and> timer_inv (startAnimation example_state)
   \<and> tick_timers (startAnimation example_state) = [1]
   \<and> tick_timers (stopAnimation (startAnimation example_state)) = []
   \<and> map_of (timers (stopAnimation (startAnimation example_state))) 1 \<noteq> Some AnimationTick
   \<and> tick_timers (run (example_env (Rejected []))
        (stopAnimation (startAnimation example_state))
        [TimerFired 1, SliderInput ''2'', Resize, CountryChange ''Algeria'']) = []"
proof -
  have s: "\<not> isPlaying example_state"
    by (simp add: example_state_def initial_state_def)
  note t0 = stopAnimation_cancels_timer[of example_state]
  note t1 = stopAnimation_cancels_timer[of "startAnimation example_state" "example_env (Rejected [])"]
  from t0 s have a: "stopAnimation example_state = example_state" by blast
  from t1 example_playing have b:
    "tick_timers (stopAnimation (startAnimation example_state)) = []"
    "\<forall>i. map_of (timers (stopAnimation (startAnimation example_state))) i \<noteq> Some AnimationTick"
    "\<forall>evs. PlayPauseClick \<notin> set evs \<longrightarrow>
              \<not> isPlaying (run (example_env (Rejected [])) (stopAnimation (startAnimation example_state)) evs)
              \<and> tick_timers (run (example_env (Rejected [])) (stopAnimation (startAnimation example_state)) evs) = []"
    by blast+
  from b(3) have c: "tick_timers (run (example_env (Rejected []))
        (stopAnimation (startAnimation example_state))
        [TimerFired 1, SliderInput ''2'', Resize, CountryChange ''Algeria'']) = []"
    by simp
  from a b(1,2) c example_playing show ?thesis by simp
qed

section \<open>Loading\<close>

lemma js_strict_eq_Num: "js_strict_eq (Num a) r \<longleftrightarrow> r = Num a"
  by (cases r) auto

lemma findIndex_year_none:
  "findIndex_year ys r = Num (- 1) \<longleftrightarrow> (\<forall>k < length ys. r \<noteq> Num (year (ys ! k)))"
proof -
  have "findIndex_year ys r = Num (- 1)
          \<longleftrightarrow> find (\<lambda>i. js_strict_eq (Num (year (ys ! i))) r) [0 ..< length ys] = None"
    by (simp add: findIndex_year_def split: option.splits)
  also have "\<dots> \<longleftrightarrow> (\<forall>k < length ys. r \<noteq> Num (year (ys ! k)))"
    by (auto simp add: find_None_iff js_strict_eq_Num)
  finally show ?thesis .
qed

lemma findIndex_year_first:
  assumes "k < length ys" "r = Num (year (ys ! k))" "\<forall>j < k. r \<noteq> Num (year (ys ! j))"
  shows "findIndex_year ys r = Num (int k)"
proof -
  have "find (\<lambda>i. js_strict_eq (Num (year (ys ! i))) r) [0 ..< length ys] = Some k"
    unfolding find_Some_iff using assms
    by (intro exI[of _ k]) (auto simp add: js_strict_eq_Num)
  then show ?thesis by (simp add: findIndex_year_def)
qed

lemma select_year_found:
  assumes "map_of (location_search st) ''year'' = Some y" "y \<noteq> []"
    "k < length (allYearsData st)" "parseInt10 y = Num (year (allYearsData st ! k))"
    "\<forall>j < k. parseInt10 y \<noteq> Num (year (allYearsData st ! j))"
  shows "select_year st = st\<lparr> currentYearIndex := Num (int k) \<rparr>"
  using assms findIndex_year_first[OF assms(3,4,5)]
  by (auto simp add: select_year_def Let_def)

lemma select_year_not_found:
  assumes "map_of (location_search st) ''year'' = Some y" "y \<noteq> []" "allYearsData st \<noteq> []"
    "\<forall>k < length (allYearsData st). parseInt10 y \<noteq> Num (year (allYearsData st ! k))"
  shows "select_year st = showMessage st
           (''Year '' @ y @ '' not found in dataset. Defaulting to first available year.'') ''error''"
  using assms findIndex_year_none[of "allYearsData st" "parseInt10 y"]
  by (simp add: select_year_def Let_def)

lemma select_year_no_param:
  assumes "\<not> truthy (map_of (location_search st) ''year'')"
  shows "select_year st = st"
  using assms by (simp add: select_year_def Let_def)

lemma select_year_index:
  assumes "currentYearIndex st = Num 0" "length (allYearsData st) = 1"
  shows "currentYearIndex (select_year st) = Num 0"
proof (cases "truthy (map_of (location_search st) ''year'')")
  case False
  with assms show ?thesis by (simp add: select_year_no_param)
next
  case True
  then obtain y where y: "map_of (location_search st) ''year'' = Some y" "y \<noteq> []"
    by (cases "map_of (location_search st) ''year''") auto
  show ?thesis
  proof (cases "parseInt10 y = Num (year (allYearsData st ! 0))")
    case True
    from assms have "0 < length (allYearsData st)" by simp
    from select_year_found[OF y this True] show ?thesis by simp
  next
    case False
    with assms have "\<forall>k < length (allYearsData st). parseInt10 y \<noteq> Num (year (allYearsData st ! k))"
      by simp
    moreover from assms have "allYearsData st \<noteq> []" by auto
    ultimately show ?thesis using select_year_not_found[OF y] assms by simp
  qed
qed


lemma select_year_shown:
  assumes "allYearsData st = [d]"
  shows "shown (select_year st) =
     (case map_of (location_search st) ''year'' of
        None \<Rightarrow> shown st
      | Some y \<Rightarrow>
          if y = [] \<or> parseInt10 y = Num (year d) then shown st
          else (''Year '' @ y @ '' not found in dataset. Defaulting to first available year.'',
                ''error'') # shown st)"
proof (cases "map_of (location_search st) ''year''")
  case None
  then show ?thesis by (simp add: select_year_no_param)
next
  case (Some y)
  show ?thesis
  proof (cases "y = []")
    case True
    with Some show ?thesis by (simp add: select_year_no_param)
  next
    case False
    show ?thesis
    proof (cases "parseInt10 y = Num (year d)")
      case True
      have "select_year st = st\<lparr> currentYearIndex := Num (int 0) \<rparr>"
        by (rule select_year_found[OF Some False]) (simp_all add: assms True)
      with Some False True show ?thesis by simp
    next
      case n: False
      have "select_year st = showMessage st
           (''Year '' @ y @ '' not found in dataset. Defaulting to first available year.'') ''error''"
        by (rule select_year_not_found[OF Some False]) (simp_all add: assms n)
      with Some False n show ?thesis by simp
    qed
  qed
qed

lemma loadAndDisplayChart_parsed_renders:
  assumes "currentYearIndex st = Num 0"
  shows "allYearsData (loadAndDisplayChart_parsed st doc) = [entry_of doc]"
    and "currentYearIndex (loadAndDisplayChart_parsed st doc) = Num 0"
    and "pyramidChart (loadAndDisplayChart_parsed st doc)
           = Some (chart_of (nextChartId st) (entry_of doc))"
    and "shown (loadAndDisplayChart_parsed st doc)
           = shown (select_year (st\<lparr> heap := heap st @ [doc_data doc, rev (doc_data doc)],
                                        allYearsData := [entry_of doc] \<rparr>))"
proof -
  let ?st2 = "st\<lparr> heap := heap st @ [doc_data doc, rev (doc_data doc)],
                   allYearsData := [entry_of doc] \<rparr>"
  let ?st3 = "select_year ?st2"
  have i3: "currentYearIndex ?st3 = Num 0"
    by (rule select_year_index) (simp_all add: assms)
  have a3: "allYearsData ?st3 = [entry_of doc]" by simp
  have v: "(0::int) \<le> 0" "0 < int (length (allYearsData ?st3))" by (simp_all add: a3)
  note init = initializeChart_valid[OF v]
  have p: "loadAndDisplayChart_parsed st doc
             = showLoading (setupControls (fst (initializeChart ?st3 (Num 0)))) False"
    by (simp add: loadAndDisplayChart_parsed_eq Let_def i3 init)
  show "allYearsData (loadAndDisplayChart_parsed st doc) = [entry_of doc]"
    by (simp add: p initializeChart_keeps_data)
  show "currentYearIndex (loadAndDisplayChart_parsed st doc) = Num 0"
    by (simp add: p initializeChart_frame i3)
  show "pyramidChart (loadAndDisplayChart_parsed st doc)
           = Some (chart_of (nextChartId st) (entry_of doc))"
    by (simp add: p init a3)
  show "shown (loadAndDisplayChart_parsed st doc) = shown ?st3"
    by (simp add: p init)
qed

lemma loadAndDisplayChart_ok:
  assumes "dataset_file e (jsonFilePath (countryName arg)) = Responded status (Inr doc)"
    "response_ok status"
  shows "loadAndDisplayChart e st arg =
     loadAndDisplayChart_parsed
       ((showLoading st True)\<lparr> fetched := fetched st @ [jsonFilePath (countryName arg)] \<rparr>) doc"
  using assms by (simp add: loadAndDisplayChart_def Let_def)

lemma loadAndDisplayChart_renders:
  assumes "dataset_file e (jsonFilePath (countryName arg)) = Responded status (Inr doc)"
    "response_ok status" "currentYearIndex st = Num 0"
  shows "allYearsData (loadAndDisplayChart e st arg) = [entry_of doc]"
    and "currentYearIndex (loadAndDisplayChart e st arg) = Num 0"
    and "pyramidChart (loadAndDisplayChart e st arg)
           = Some (chart_of (nextChartId st) (entry_of doc))"
    and "shown (loadAndDisplayChart e st arg) =
     (case map_of (location_search st) ''year'' of
        None \<Rightarrow> shown st
      | Some y \<Rightarrow>
          if y = [] \<or> parseInt10 y = Num (doc_year doc) then shown st
          else (''Year '' @ y @ '' not found in dataset. Defaulting to first available year.'',
                ''error'') # shown st)"
proof -
  let ?st1 = "(showLoading st True)\<lparr> fetched := fetched st @ [jsonFilePath (countryName arg)] \<rparr>"
  have i: "currentYearIndex ?st1 = Num 0" using assms(3) by simp
  note r = loadAndDisplayChart_parsed_renders[OF i, of doc]
  note ok = loadAndDisplayChart_ok[OF assms(1,2), of st]
  show "allYearsData (loadAndDisplayChart e st arg) = [entry_of doc]"
    using r(1) by (simp only: ok)
  show "currentYearIndex (loadAndDisplayChart e st arg) = Num 0"
    using r(2) by (simp only: ok)
  show "pyramidChart (loadAndDisplayChart e st arg) = Some (chart_of (nextChartId st) (entry_of doc))"
    using r(3) by (simp add: ok)
  let ?st2 = "?st1\<lparr> heap := heap ?st1 @ [doc_data doc, rev (doc_data doc)],
                     allYearsData := [entry_of doc] \<rparr>"
  have "shown (loadAndDisplayChart e st arg) = shown (select_year ?st2)"
    using r(4) by (simp only: ok)
  also have "\<dots> = (case map_of (location_search ?st2) ''year'' of
        None \<Rightarrow> shown ?st2
      | Some y \<Rightarrow>
          if y = [] \<or> parseInt10 y = Num (year (entry_of doc)) then shown ?st2
          else (''Year '' @ y @ '' not found in dataset. Defaulting to first available year.'',
                ''error'') # shown ?st2)"
    by (rule select_year_shown) simp
  finally show "shown (loadAndDisplayChart e st arg) =
     (case map_of (location_search st) ''year'' of
        None \<Rightarrow> shown st
      | Some y \<Rightarrow>
          if y = [] \<or> parseInt10 y = Num (doc_year doc) then shown st
          else (''Year '' @ y @ '' not found in dataset. Defaulting to first available year.'',
                ''error'') # shown st)"
    by (auto simp add: entry_of_def split: option.splits)
qed


text \<open>
  C2, as the code has it. With a \<open>year\<close> parameter that is present and not empty, and the
  index at 0 as on the initial load: the first entry whose year is the parsed parameter
  gets its index made the current one, and nothing is shown; when no entry has that year,
  the message "Year ... not found in dataset. Defaulting to first available year." is shown
  as an error and the index stays 0. For a dataset file that is fetched and parsed, the
  series is its one entry, the index is 0 and the chart drawn is that entry's, with the
  message shown exactly when the parsed parameter is not the entry's year.
\<close>

theorem year_parameter_selects_entry:
  assumes "map_of (location_search st) ''year'' = Some y" "y \<noteq> []" "currentYearIndex st = Num 0"
  shows "(\<forall>k. k < length (allYearsData st)
            \<and> parseInt10 y = Num (year (allYearsData st ! k))
            \<and> (\<forall>j < k. parseInt10 y \<noteq> Num (year (allYearsData st ! j)))
          \<longrightarrow> select_year st = st\<lparr> currentYearIndex := Num (int k) \<rparr>)
    \<and> (allYearsData st \<noteq> []
          \<and> (\<forall>k < length (allYearsData st). parseInt10 y \<noteq> Num (year (allYearsData st ! k)))
          \<longrightarrow> select_year st = showMessage st
                 (''Year '' @ y @ '' not found in dataset. Defaulting to first available year.'')
                 ''error''
            \<and> currentYearIndex (select_year st) = Num 0)
    \<and> (\<forall>status doc.
          dataset_file e (jsonFilePath (countryName arg)) = Responded status (Inr doc)
          \<and> response_ok status
          \<longrightarrow> allYearsData (loadAndDisplayChart e st arg) = [entry_of doc]
            \<and> currentYearIndex (loadAndDisplayChart e st arg) = Num 0
            \<and> pyramidChart (loadAndDisplayChart e st arg)
                = Some (chart_of (nextChartId st) (entry_of doc))
            \<and> shown (loadAndDisplayChart e st arg)
                = (if parseInt10 y = Num (doc_year doc) then shown st
                   else (''Year '' @ y
                           @ '' not found in dataset. Defaulting to first available year.'',
                         ''error'') # shown st))"
proof -
  have a: "select_year st = st\<lparr> currentYearIndex := Num (int k) \<rparr>"
    if "k < length (allYearsData st) \<and> parseInt10 y = Num (year (allYearsData st ! k))
            \<and> (\<forall>j < k. parseInt10 y \<noteq> Num (year (allYearsData st ! j)))" for k
    using that select_year_found[OF assms(1,2), of k] by blast
  have b: "select_year st = showMessage st
                 (''Year '' @ y @ '' not found in dataset. Defaulting to first available year.'')
                 ''error''
            \<and> currentYearIndex (select_year st) = Num 0"
    if "allYearsData st \<noteq> []
          \<and> (\<forall>k < length (allYearsData st). parseInt10 y \<noteq> Num (year (allYearsData st ! k)))"
    using that select_year_not_found[OF assms(1,2)] assms(3) by simp
  have c: "allYearsData (loadAndDisplayChart e st arg) = [entry_of doc]
            \<and> currentYearIndex (loadAndDisplayChart e st arg) = Num 0
            \<and> pyramidChart (loadAndDisplayChart e st arg)
                = Some (chart_of (nextChartId st) (entry_of doc))
            \<and> shown (loadAndDisplayChart e st arg)
                = (if parseInt10 y = Num (doc_year doc) then shown st
                   else (''Year '' @ y
                           @ '' not found in dataset. Defaulting to first available year.'',
                         ''error'') # shown st)"
    if "dataset_file e (jsonFilePath (countryName arg)) = Responded status (Inr doc)
          \<and> response_ok status" for status doc
  proof -
    from that have f: "dataset_file e (jsonFilePath (countryName arg)) = Responded status (Inr doc)"
      and ok: "response_ok status" by simp_all
    note r = loadAndDisplayChart_renders[OF f ok assms(3)]
    from r(4) assms(1,2) have "shown (loadAndDisplayChart e st arg)
                = (if parseInt10 y = Num (doc_year doc) then shown st
                   else (''Year '' @ y
                           @ '' not found in dataset. Defaulting to first available year.'',
                         ''error'') # shown st)"
      by simp
    with r(1,2,3) show ?thesis by simp
  qed
  from a b c show ?thesis by blast
qed

lemma example_parse_years:
  "parseInt10 ''1800'' = Num 1800" "parseInt10 ''2025'' = Num 2025" "parseInt10 ''2030'' = Num 2030"
  by (simp_all add: parseInt10_def is_space_def parse_digits_def is_digit_def digit_val_def)

theorem year_parameter_selects_entry_witness:
  "select_year (example_state\<lparr> location_search := [(''year'', ''2030'')] \<rparr>)
     = example_state\<lparr> location_search := [(''year'', ''2030'')], currentYearIndex := Num 2 \<rparr>
   \<and> shown (select_year (example_state\<lparr> location_search := [(''year'', ''1800'')] \<rparr>))
       = [(''Year 1800 not found in dataset. Defaulting to first available year.'', ''error'')]
   \<and> currentYearIndex (select_year (example_state\<lparr> location_search := [(''year'', ''1800'')] \<rparr>))
       = Num 0
   \<and> shown (loadAndDisplayChart (example_env (Rejected [])) (initial_state [(''year'', ''1800'')])
              (Some ''Algeria''))
       = [(''Year 1800 not found in dataset. Defaulting to first available year.'', ''error'')]
   \<and> pyramidChart (loadAndDisplayChart (example_env (Rejected []))
                     (initial_state [(''year'', ''1800'')]) (Some ''Algeria''))
       = Some (chart_of 0 (entry_of example_doc))
   \<and> shown (loadAndDisplayChart (example_env (Rejected [])) (initial_state [(''year'', ''2025'')])
              (Some ''Algeria'')) = []
   \<and> currentYearIndex (loadAndDisplayChart (example_env (Rejected []))
                     (initial_state [(''year'', ''2025'')]) (Some ''Algeria'')) = Num 0"
proof -
  let ?e = "example_env (Rejected [])"
  have f: "dataset_file ?e (jsonFilePath (countryName (Some ''Algeria'')))
             = Responded 200 (Inr example_doc) \<and> response_ok 200"
    by (simp add: example_env_def example_files_def jsonFilePath_def countryName_def
        response_ok_def)
  let ?s30 = "example_state\<lparr> location_search := [(''year'', ''2030'')] \<rparr>"
  let ?s18 = "example_state\<lparr> location_search := [(''year'', ''1800'')] \<rparr>"
  have h30: "map_of (location_search ?s30) ''year'' = Some ''2030''" "''2030'' \<noteq> []"
    "currentYearIndex ?s30 = Num 0"
    by (simp_all add: example_state_def initial_state_def)
  have h18: "map_of (location_search ?s18) ''year'' = Some ''1800''" "''1800'' \<noteq> []"
    "currentYearIndex ?s18 = Num 0"
    by (simp_all add: example_state_def initial_state_def)
  have i18: "map_of (location_search (initial_state [(''year'', ''1800'')])) ''year'' = Some ''1800''"
    "''1800'' \<noteq> []" "currentYearIndex (initial_state [(''year'', ''1800'')]) = Num 0"
    by (simp_all add: initial_state_def)
  have i25: "map_of (location_search (initial_state [(''year'', ''2025'')])) ''year'' = Some ''2025''"
    "''2025'' \<noteq> []" "currentYearIndex (initial_state [(''year'', ''2025'')]) = Num 0"
    by (simp_all add: initial_state_def)
  have ys: "allYearsData ?s30 = example_series" "allYearsData ?s18 = example_series"
    by (simp_all add: example_state_def)
  have a: "select_year ?s30 = ?s30\<lparr> currentYearIndex := Num (int 2) \<rparr>"
  proof -
    have "2 < length (allYearsData ?s30)
            \<and> parseInt10 ''2030'' = Num (year (allYearsData ?s30 ! 2))
            \<and> (\<forall>j < 2. parseInt10 ''2030'' \<noteq> Num (year (allYearsData ?s30 ! j)))"
      by (simp add: ys example_parse_years example_series_def less_Suc_eq numeral_2_eq_2)
    with year_parameter_selects_entry[OF h30, of ?e None] show ?thesis by blast
  qed
  have b: "select_year ?s18 = showMessage ?s18
                 (''Year '' @ ''1800'' @ '' not found in dataset. Defaulting to first available year.'')
                 ''error''
            \<and> currentYearIndex (select_year ?s18) = Num 0"
  proof -
    have "allYearsData ?s18 \<noteq> []
          \<and> (\<forall>k < length (allYearsData ?s18). parseInt10 ''1800'' \<noteq> Num (year (allYearsData ?s18 ! k)))"
      by (simp add: ys example_parse_years example_series_def less_Suc_eq numeral_3_eq_3)
    with year_parameter_selects_entry[OF h18, of ?e None] show ?thesis by blast
  qed
  have c: "shown (loadAndDisplayChart ?e (initial_state [(''year'', ''1800'')]) (Some ''Algeria''))
       = [(''Year 1800 not found in dataset. Defaulting to first available year.'', ''error'')]
     \<and> pyramidChart (loadAndDisplayChart ?e (initial_state [(''year'', ''1800'')]) (Some ''Algeria''))
       = Some (chart_of 0 (entry_of example_doc))"
    using year_parameter_selects_entry[OF i18, of ?e "Some ''Algeria''"] f
    by (simp add: example_parse_years example_doc_def initial_state_def)
  have d: "shown (loadAndDisplayChart ?e (initial_state [(''year'', ''2025'')]) (Some ''Algeria'')) = []
     \<and> currentYearIndex (loadAndDisplayChart ?e (initial_state [(''year'', ''2025'')]) (Some ''Algeria'')) = Num 0"
    using year_parameter_selects_entry[OF i25, of ?e "Some ''Algeria''"] f
    by (simp add: example_parse_years example_doc_def initial_state_def)
  from a b c d show ?thesis by (simp add: example_state_def initial_state_def)
qed

text \<open>
  The \<open>year\<close> parameter may be present and empty (\<open>?year=\<close>): the condition
  \<open>yearParam && ...\<close> then skips the lookup, so no entry matches the parameter and yet no
  message is shown.
\<close>

theorem year_parameter_empty_counterexample:
  "map_of (location_search (initial_state [(''year'', [])])) ''year'' = Some []
   \<and> findIndex_year
        (allYearsData (window_onload (example_env (Responded 200 (Inr [''Algeria''])))
                         (initial_state [(''year'', [])])))
        (parseInt10 []) = Num (- 1)
   \<and> shown (window_onload (example_env (Responded 200 (Inr [''Algeria''])))
              (initial_state [(''year'', [])])) = []"
  by code_simp


lemma showLoading_hidden: "''hidden'' \<in> set (loadingIndicator_classes (showLoading st False))"
  by (simp add: showLoading_def class_add_def)

lemma initializeChart_shown:
  "set (shown st) \<subseteq> set (shown (fst (initializeChart st idx)))"
  "countryList (fst (initializeChart st idx)) = countryList st"
  by (auto simp add: initializeChart_def Let_def destroy_def new_Chart_def split: option.splits)

lemma select_year_shown_mono:
  "set (shown st) \<subseteq> set (shown (select_year st))"
  "countryList (select_year st) = countryList st"
  by (auto simp add: select_year_def Let_def)

lemma loadAndDisplayChart_catch_more [simp]:
  "countryList (loadAndDisplayChart_catch st err) = countryList st"
  "''hidden'' \<in> set (loadingIndicator_classes (loadAndDisplayChart_catch st err))"
  by (simp_all add: loadAndDisplayChart_catch_def Let_def showLoading_hidden)

lemma setupControls_countryList [simp]: "countryList (setupControls st) = countryList st"
  by (simp add: setupControls_def Let_def)

lemma loadAndDisplayChart_parsed_more:
  "set (shown st) \<subseteq> set (shown (loadAndDisplayChart_parsed st doc))"
  "countryList (loadAndDisplayChart_parsed st doc) = countryList st"
  "''hidden'' \<in> set (loadingIndicator_classes (loadAndDisplayChart_parsed st doc))"
proof -
  let ?st3 = "select_year (st\<lparr> heap := heap st @ [doc_data doc, rev (doc_data doc)],
                                   allYearsData := [entry_of doc] \<rparr>)"
  obtain st4 r where i: "initializeChart ?st3 (currentYearIndex ?st3) = (st4, r)"
    by (cases "initializeChart ?st3 (currentYearIndex ?st3)")
  have s3: "set (shown st) \<subseteq> set (shown ?st3)" "countryList ?st3 = countryList st"
    using select_year_shown_mono[of "st\<lparr> heap := heap st @ [doc_data doc, rev (doc_data doc)],
                                   allYearsData := [entry_of doc] \<rparr>"]
    by simp_all
  have s4: "set (shown ?st3) \<subseteq> set (shown st4)" "countryList st4 = countryList ?st3"
    using initializeChart_shown[of ?st3 "currentYearIndex ?st3"] i by simp_all
  show "set (shown st) \<subseteq> set (shown (loadAndDisplayChart_parsed st doc))"
    using s3(1) s4(1) by (auto simp add: loadAndDisplayChart_parsed_eq Let_def i split: option.splits)
  show "countryList (loadAndDisplayChart_parsed st doc) = countryList st"
    using s3(2) s4(2) by (simp add: loadAndDisplayChart_parsed_eq Let_def i split: option.splits)
  show "''hidden'' \<in> set (loadingIndicator_classes (loadAndDisplayChart_parsed st doc))"
    by (simp add: loadAndDisplayChart_parsed_eq Let_def i showLoading_hidden split: option.splits)
qed

lemma loadAndDisplayChart_more:
  "set (shown st) \<subseteq> set (shown (loadAndDisplayChart e st arg))"
  "countryList (loadAndDisplayChart e st arg) = countryList st"
  "''hidden'' \<in> set (loadingIndicator_classes (loadAndDisplayChart e st arg))"
proof -
  let ?st1 = "(showLoading st True)\<lparr> fetched := fetched (showLoading st True) @ [jsonFilePath (countryName arg)] \<rparr>"
  note p = loadAndDisplayChart_parsed_more[of ?st1]
  show "set (shown st) \<subseteq> set (shown (loadAndDisplayChart e st arg))"
    using p(1) by (auto simp add: loadAndDisplayChart_def Let_def split: fetch_result.splits sum.splits)
  show "countryList (loadAndDisplayChart e st arg) = countryList st"
    using p(2) by (simp add: loadAndDisplayChart_def Let_def split: fetch_result.splits sum.splits)
  show "''hidden'' \<in> set (loadingIndicator_classes (loadAndDisplayChart e st arg))"
    using p(3) by (simp add: loadAndDisplayChart_def Let_def split: fetch_result.splits sum.splits)
qed

lemma loadCountryList_ok:
  assumes "catalog_file e = Responded status (Inr cl)" "response_ok status"
  shows "\<exists>s. loadCountryList e st =
           loadAndDisplayChart e s
             (if truthy (map_of (location_search st) ''country'')
                 \<and> the (map_of (location_search st) ''country'') \<in> set cl
              then map_of (location_search st) ''country''
              else if ''Algeria'' \<in> set cl then Some ''Algeria''
              else case cl of [] \<Rightarrow> None | c # _ \<Rightarrow> Some c)
         \<and> fetched s = fetched st @ [''data/country_list.json'']
         \<and> countryList s = cl"
  using assms
  by (auto simp add: loadCountryList_def Let_def select_set_value_def)

text \<open>
  C8, as the code has it. Once the catalog is loaded, exactly one dataset file is requested
  after it: that of the \<open>country\<close> parameter if it is present, not empty and in the catalog;
  otherwise that of "Algeria" if the catalog has it; otherwise that of the catalog's first
  entry, and with an empty catalog that of "Algeria", the default parameter of
  \<open>loadAndDisplayChart\<close>.
\<close>

theorem initial_country_resolution:
  assumes "catalog_file e = Responded status (Inr cl)" "response_ok status"
  shows "countryList (loadCountryList e st) = cl
    \<and> fetched (loadCountryList e st) =
        fetched st @ [''data/country_list.json'',
          jsonFilePath
            (if \<exists>p. map_of (location_search st) ''country'' = Some p \<and> p \<noteq> [] \<and> p \<in> set cl
             then the (map_of (location_search st) ''country'')
             else if ''Algeria'' \<in> set cl then ''Algeria''
             else case cl of c # _ \<Rightarrow> c | [] \<Rightarrow> ''Algeria'')]"
proof -
  let ?p = "map_of (location_search st) ''country''"
  let ?arg = "if truthy ?p \<and> the ?p \<in> set cl then ?p
              else if ''Algeria'' \<in> set cl then Some ''Algeria''
              else case cl of [] \<Rightarrow> None | c # _ \<Rightarrow> Some c"
  from loadCountryList_ok[OF assms, of st] obtain s where
    s: "loadCountryList e st = loadAndDisplayChart e s ?arg"
       "fetched s = fetched st @ [''data/country_list.json'']" "countryList s = cl"
    by blast
  have n: "countryName ?arg =
            (if \<exists>p. ?p = Some p \<and> p \<noteq> [] \<and> p \<in> set cl then the ?p
             else if ''Algeria'' \<in> set cl then ''Algeria''
             else case cl of c # _ \<Rightarrow> c | [] \<Rightarrow> ''Algeria'')"
    by (cases ?p; cases cl) (auto simp add: countryName_def)
  show ?thesis
    unfolding s(1) using s(2,3) n
    by (simp add: loadAndDisplayChart_frame(4) loadAndDisplayChart_more(2))
qed


theorem initial_country_resolution_witness:
  "fetched (loadCountryList (example_env (Responded 200 (Inr [''Angola'', ''Algeria''])))
              (initial_state [(''country'', ''Angola'')]))
     = [''data/country_list.json'', ''data/Angola_pyramid.json'']
   \<and> fetched (loadCountryList (example_env (Responded 200 (Inr [''Angola'', ''Algeria''])))
              (initial_state [(''country'', ''Atlantis'')]))
     = [''data/country_list.json'', ''data/Algeria_pyramid.json'']
   \<and> fetched (loadCountryList (example_env (Responded 200 (Inr [''Angola'', ''Benin''])))
              (initial_state []))
     = [''data/country_list.json'', ''data/Angola_pyramid.json'']"
proof -
  have ok: "response_ok 200" by (simp add: response_ok_def)
  have c1: "catalog_file (example_env (Responded 200 (Inr [''Angola'', ''Algeria''])))
              = Responded 200 (Inr [''Angola'', ''Algeria''])"
    and c2: "catalog_file (example_env (Responded 200 (Inr [''Angola'', ''Benin''])))
              = Responded 200 (Inr [''Angola'', ''Benin''])"
    by (simp_all add: example_env_def)
  from initial_country_resolution[OF c1 ok, of "initial_state [(''country'', ''Angola'')]"]
  have a: "fetched (loadCountryList (example_env (Responded 200 (Inr [''Angola'', ''Algeria''])))
              (initial_state [(''country'', ''Angola'')]))
     = [''data/country_list.json'', ''data/Angola_pyramid.json'']"
    by (simp add: initial_state_def jsonFilePath_def)
  from initial_country_resolution[OF c1 ok, of "initial_state [(''country'', ''Atlantis'')]"]
  have b: "fetched (loadCountryList (example_env (Responded 200 (Inr [''Angola'', ''Algeria''])))
              (initial_state [(''country'', ''Atlantis'')]))
     = [''data/country_list.json'', ''data/Algeria_pyramid.json'']"
    by (simp add: initial_state_def jsonFilePath_def)
  from initial_country_resolution[OF c2 ok, of "initial_state []"]
  have c: "fetched (loadCountryList (example_env (Responded 200 (Inr [''Angola'', ''Benin''])))
              (initial_state []))
     = [''data/country_list.json'', ''data/Angola_pyramid.json'']"
    by (simp add: initial_state_def jsonFilePath_def)
  from a b c show ?thesis by simp
qed

text \<open>
  With an empty catalog and no \<open>country\<close> parameter none of the three choices exists; the
  script passes \<open>countryList[0]\<close>, which is \<open>undefined\<close>, and the dataset of "Algeria" is
  requested.
\<close>

theorem empty_catalog_counterexample:
  "countryList (window_onload (example_env (Responded 200 (Inr []))) (initial_state [])) = []
   \<and> map_of (location_search (initial_state [])) ''country'' = None
   \<and> fetched (window_onload (example_env (Responded 200 (Inr []))) (initial_state []))
       = [''data/country_list.json'', ''data/Algeria_pyramid.json'']"
  by code_simp

lemma loadCountryList_failed:
  assumes "catalog_file e = Rejected m
           \<or> (\<exists>body. catalog_file e = Responded status body \<and> \<not> response_ok status)"
  shows "loadCountryList e st =
     loadAndDisplayChart e
       (showMessage (st\<lparr> fetched := fetched st @ [''data/country_list.json''] \<rparr>)
          ''Could not load country list. Using default country.'' ''error'')
       (Some ''Algeria'')"
  using assms by (auto simp add: loadCountryList_def Let_def loadCountryList_catch_def)

lemma Algeria_path: "jsonFilePath (countryName (Some ''Algeria'')) = ''data/Algeria_pyramid.json''"
  by (simp add: jsonFilePath_def countryName_def)

text \<open>
  C9. When the catalog request is rejected or answered with a status outside 200 to 299,
  the message "Could not load country list. Using default country." is shown as an error,
  the dataset of "Algeria" is the one file requested after the catalog, the catalog stays as
  it was, and the loading indicator is hidden again at the end. Where that dataset is
  fetched and parsed (and the index is 0, as on the initial load) its entry is the series
  and its chart is drawn.
\<close>

theorem catalog_failure_falls_back:
  assumes "catalog_file e = Rejected m
           \<or> (\<exists>body. catalog_file e = Responded status body \<and> \<not> response_ok status)"
  shows "fetched (loadCountryList e st)
           = fetched st @ [''data/country_list.json'', ''data/Algeria_pyramid.json'']
    \<and> (''Could not load country list. Using default country.'', ''error'')
          \<in> set (shown (loadCountryList e st))
    \<and> ''hidden'' \<in> set (loadingIndicator_classes (loadCountryList e st))
    \<and> countryList (loadCountryList e st) = countryList st
    \<and> (\<forall>s doc. dataset_file e ''data/Algeria_pyramid.json'' = Responded s (Inr doc)
            \<and> response_ok s \<and> currentYearIndex st = Num 0
          \<longrightarrow> allYearsData (loadCountryList e st) = [entry_of doc]
            \<and> pyramidChart (loadCountryList e st)
                = Some (chart_of (nextChartId st) (entry_of doc)))"
proof -
  let ?s = "showMessage (st\<lparr> fetched := fetched st @ [''data/country_list.json''] \<rparr>)
          ''Could not load country list. Using default country.'' ''error''"
  note l = loadCountryList_failed[OF assms, of st]
  have a: "fetched (loadCountryList e st)
           = fetched st @ [''data/country_list.json'', ''data/Algeria_pyramid.json'']"
    by (simp add: l loadAndDisplayChart_frame(4) Algeria_path)
  have "(''Could not load country list. Using default country.'', ''error'') \<in> set (shown ?s)"
    by simp
  then have b: "(''Could not load country list. Using default country.'', ''error'')
          \<in> set (shown (loadCountryList e st))"
    using loadAndDisplayChart_more(1)[of ?s e "Some ''Algeria''"] unfolding l by blast
  have c: "''hidden'' \<in> set (loadingIndicator_classes (loadCountryList e st))"
    unfolding l by (rule loadAndDisplayChart_more(3))
  have d: "countryList (loadCountryList e st) = countryList st"
    by (simp add: l loadAndDisplayChart_more(2))
  have r: "allYearsData (loadCountryList e st) = [entry_of doc]
            \<and> pyramidChart (loadCountryList e st)
                = Some (chart_of (nextChartId st) (entry_of doc))"
    if "dataset_file e ''data/Algeria_pyramid.json'' = Responded s (Inr doc)
            \<and> response_ok s \<and> currentYearIndex st = Num 0" for s doc
  proof -
    from that have f: "dataset_file e (jsonFilePath (countryName (Some ''Algeria''))) = Responded s (Inr doc)"
      and ok: "response_ok s" and i: "currentYearIndex ?s = Num 0"
      by (simp_all add: Algeria_path)
    from loadAndDisplayChart_renders(1,3)[OF f ok i] show ?thesis by (simp add: l)
  qed
  from a b c d r show ?thesis by blast
qed

theorem catalog_failure_falls_back_witness:
  "fetched (loadCountryList (example_env (Rejected ''Failed to fetch'')) (initial_state []))
     = [''data/country_list.json'', ''data/Algeria_pyramid.json'']
   \<and> (''Could not load country list. Using default country.'', ''error'')
        \<in> set (shown (loadCountryList (example_env (Rejected ''Failed to fetch'')) (initial_state [])))
   \<and> pyramidChart (loadCountryList (example_env (Rejected ''Failed to fetch'')) (initial_state []))
       = Some (chart_of 0 (entry_of example_doc))
   \<and> fetched (loadCountryList (example_env (Responded 404 (Inl ''Unexpected token'')))
               (initial_state []))
     = [''data/country_list.json'', ''data/Algeria_pyramid.json'']"
proof -
  have h1: "catalog_file (example_env (Rejected ''Failed to fetch'')) = Rejected ''Failed to fetch''
           \<or> (\<exists>body. catalog_file (example_env (Rejected ''Failed to fetch'')) = Responded 0 body
                  \<and> \<not> response_ok 0)"
    by (simp add: example_env_def)
  have h2: "catalog_file (example_env (Responded 404 (Inl ''Unexpected token''))) = Rejected []
           \<or> (\<exists>body. catalog_file (example_env (Responded 404 (Inl ''Unexpected token'')))
                        = Responded 404 body \<and> \<not> response_ok 404)"
    by (simp add: example_env_def response_ok_def)
  have f: "dataset_file (example_env (Rejected ''Failed to fetch'')) ''data/Algeria_pyramid.json''
             = Responded 200 (Inr example_doc) \<and> response_ok 200
           \<and> currentYearIndex (initial_state []) = Num 0"
    by (simp add: example_env_def example_files_def response_ok_def initial_state_def)
  note t1 = catalog_failure_falls_back[OF h1, of "initial_state []"]
  note t2 = catalog_failure_falls_back[OF h2, of "initial_state []"]
  from t1 f have "pyramidChart (loadCountryList (example_env (Rejected ''Failed to fetch'')) (initial_state []))
       = Some (chart_of (nextChartId (initial_state [])) (entry_of example_doc))"
    by blast
  then have p: "pyramidChart (loadCountryList (example_env (Rejected ''Failed to fetch'')) (initial_state []))
       = Some (chart_of 0 (entry_of example_doc))"
    by (simp add: initial_state_def)
  from t1 t2 p show ?thesis by (simp add: initial_state_def)
qed

end
